theory Spec2Isabelle
  imports Complex_Main
begin

section \<open>JavaScript values\<close>

text \<open>
  The front end of the repository (\<^verbatim>\<open>src/index.js\<close>, the React component \<^verbatim>\<open>App\<close>)
  is modelled by a shallow embedding. A JavaScript string is a sequence of UTF-16 code
  units; a \<open>char\<close> here is a code unit below 256 (\<open>CHR 0xA0\<close> is the no-break space
  U+00A0), so the strings of the model are the strings over that range. The only
  characters the code itself inspects are ASCII. A JavaScript number is either one of the
  three special values or a finite value, kept as the exact rational it denotes (the two
  zeros are one value: they compare equal and both are falsy). The literal bounds of the
  source (\<^verbatim>\<open>0\<close>, \<^verbatim>\<open>100\<close>, \<^verbatim>\<open>0.4\<close>) are the rationals of the same name: no double lies
  strictly between \<open>4/10\<close> and the double written \<^verbatim>\<open>0.4\<close>, so on doubles the comparison
  with either is the same.
\<close>

datatype jsnum = NaN | PosInfinity | NegInfinity | Finite rat

text \<open>Form values and call arguments are primitive values.\<close>

datatype jsval = Undefined | Null | Bool bool | Num jsnum | Str string

text \<open>What \<^verbatim>\<open>resp.json()\<close> yields when the body parses.\<close>

datatype json =
    JNull
  | JBool bool
  | JNum jsnum
  | JStr string
  | JArr "json list"
  | JObj "(string \<times> json) list"

datatype js_error = TypeError

text \<open>The relation \<^verbatim>\<open><\<close> on numbers: every comparison with \<^verbatim>\<open>NaN\<close> is false.\<close>

fun num_lt :: "jsnum \<Rightarrow> jsnum \<Rightarrow> bool" where
  "num_lt NaN _ = False"
| "num_lt _ NaN = False"
| "num_lt PosInfinity _ = False"
| "num_lt _ NegInfinity = False"
| "num_lt NegInfinity _ = True"
| "num_lt _ PosInfinity = True"
| "num_lt (Finite a) (Finite b) = (a < b)"

text \<open>\<^verbatim>\<open>Number.isFinite\<close>.\<close>

fun isFinite :: "jsnum \<Rightarrow> bool" where
  "isFinite (Finite _) = True"
| "isFinite _ = False"

text \<open>Truthiness of a primitive (\<^verbatim>\<open>!v\<close> is its negation).\<close>

fun truthy :: "jsval \<Rightarrow> bool" where
  "truthy Undefined = False"
| "truthy Null = False"
| "truthy (Bool b) = b"
| "truthy (Num n) = (n \<noteq> NaN \<and> n \<noteq> Finite 0)"
| "truthy (Str s) = (s \<noteq> [])"

text \<open>Truthiness of a parsed JSON value: arrays and objects are always truthy.\<close>

fun jtruthy :: "json \<Rightarrow> bool" where
  "jtruthy JNull = False"
| "jtruthy (JBool b) = b"
| "jtruthy (JNum n) = (n \<noteq> NaN \<and> n \<noteq> Finite 0)"
| "jtruthy (JStr s) = (s \<noteq> [])"
| "jtruthy (JArr _) = True"
| "jtruthy (JObj _) = True"

text \<open>
  \<^verbatim>\<open>Number(v)\<close> and the implicit conversion of \<^verbatim>\<open>v < 0\<close>. The conversion of a string
  (the grammar of numeric literals and the rounding to a double) is a built-in of the
  language and is the parameter \<open>N\<close>.
\<close>

fun ToNumber :: "(string \<Rightarrow> jsnum) \<Rightarrow> jsval \<Rightarrow> jsnum" where
  "ToNumber N Undefined = NaN"
| "ToNumber N Null = Finite 0"
| "ToNumber N (Bool b) = (if b then Finite 1 else Finite 0)"
| "ToNumber N (Num n) = n"
| "ToNumber N (Str s) = N s"

text \<open>\<^verbatim>\<open>s.startsWith(p)\<close> and \<^verbatim>\<open>s.includes(p)\<close>.\<close>

fun startsWith :: "string \<Rightarrow> string \<Rightarrow> bool" where
  "startsWith s [] = True"
| "startsWith [] (p # ps) = False"
| "startsWith (c # cs) (p # ps) = (c = p \<and> startsWith cs ps)"

fun includesStr :: "string \<Rightarrow> string \<Rightarrow> bool" where
  "includesStr [] p = (p = [])"
| "includesStr (c # cs) p = (startsWith (c # cs) p \<or> includesStr cs p)"

text \<open>
  \<^verbatim>\<open>s.trim()\<close> removes the leading and trailing white space and line terminators. Of
  the code units below 256 these are seven: tab U+0009, line feed U+000A, vertical tab
  U+000B, form feed U+000C, carriage return U+000D, space U+0020 and no-break space
  U+00A0. The others (U+1680, U+2000 to U+200A, U+2028, U+2029, U+202F, U+205F, U+3000,
  U+FEFF) are not code units of the model. So that no statement about \<^verbatim>\<open>generateModel\<close>
  depends on this range, \<^verbatim>\<open>generateModel\<close> below takes the trimming function as its
  parameter \<open>T\<close>, like the conversion \<open>N\<close>; \<open>trim\<close> is the function the examples pass.
\<close>

definition isWhiteSpace :: "char \<Rightarrow> bool" where
  "isWhiteSpace c =
     (c \<in> set [CHR 0x09, CHR 0x0A, CHR 0x0B, CHR 0x0C, CHR 0x0D, CHR 0x20, CHR 0xA0])"

definition trim :: "string \<Rightarrow> string" where
  "trim s = rev (dropWhile isWhiteSpace (rev (dropWhile isWhiteSpace s)))"

section \<open>Helpers of the front end\<close>

text \<open>
  \<^verbatim>\<open>function validDimension(v) { if (!v) return false; const n = Number(v);
  return Number.isFinite(n) && n > 0; }\<close>
\<close>

definition validDimension :: "(string \<Rightarrow> jsnum) \<Rightarrow> jsval \<Rightarrow> bool" where
  "validDimension N v =
     (if \<not> truthy v then False
      else let n = ToNumber N v in isFinite n \<and> num_lt (Finite 0) n)"

text \<open>
  \<^verbatim>\<open>input.replace(/[&<>"']/g, (m) => ({'&': '&amp;', '<': '&lt;', '>': '&gt;',
  '"': '&quot;', "'": '&#x27;'})[m])\<close>: every match is replaced, one character at a time.
\<close>

definition escapeChar :: "char \<Rightarrow> string" where
  "escapeChar m =
     (if m = CHR ''&'' then ''&amp;''
      else if m = CHR ''<'' then ''&lt;''
      else if m = CHR ''>'' then ''&gt;''
      else if m = CHR 0x22 then ''&quot;''
      else if m = CHR 0x27 then ''&#x27;''
      else [m])"

definition sanitizeInput :: "string \<Rightarrow> string" where
  "sanitizeInput input = concat (map escapeChar input)"

section \<open>State, requests and effects\<close>

text \<open>
  The state of \<^verbatim>\<open>App\<close> (its \<^verbatim>\<open>useState\<close> slots). \<^verbatim>\<open>modelUrl\<close>, \<^verbatim>\<open>error\<close> and
  \<^verbatim>\<open>userPlan\<close> can be assigned a field of a response body, so they hold JSON values;
  \<^verbatim>\<open>null\<close> is \<open>JNull\<close>.
\<close>

record identity =
  email :: string
  uid :: string

record app_state =
  user :: "identity option"
  userPlan :: json
  modelUrl :: json
  error :: json
  isLoading :: bool
  showSignUp :: bool
  showSignIn :: bool
  showStripeModal :: bool

text \<open>The object literal \<^verbatim>\<open>payload\<close> of \<^verbatim>\<open>generateModel\<close>.\<close>

record payload =
  p_prompt :: string
  p_width :: jsnum
  p_height :: jsnum
  p_depth :: jsnum
  p_material :: jsval
  p_supports :: jsval
  p_infill :: jsnum
  p_shellThickness :: jsnum
  p_image :: jsval
  p_userId :: "string option"
  p_format :: string

datatype http_method = GET | POST

text \<open>
  A request body before \<^verbatim>\<open>JSON.stringify\<close>: none, the generation payload, or the
  checkout object (\<^verbatim>\<open>priceId\<close>, \<^verbatim>\<open>modelUrl\<close>, \<^verbatim>\<open>userId\<close>).
\<close>

datatype request_body = NoBody | GenerateBody payload | CheckoutBody string json string

text \<open>A header value is \<open>None\<close> when the expression that computes it is \<^verbatim>\<open>undefined\<close>.\<close>

record request =
  url :: string
  req_method :: http_method
  headers :: "(string \<times> json option) list"
  body :: request_body

text \<open>
  What a \<^verbatim>\<open>fetch\<close> gives: the promise rejects (transport failure), or there is a
  response with its \<^verbatim>\<open>ok\<close> flag and a body for which \<^verbatim>\<open>resp.json()\<close> throws or yields
  a value. The network is an arbitrary function of the number of requests already sent
  in this run and of the request.
\<close>

datatype response_body = NotJson | Json json

datatype fetch_outcome = Rejected | Response bool response_body

type_synonym network = "nat \<Rightarrow> request \<Rightarrow> fetch_outcome"

text \<open>
  What a run does besides assigning state: requests, toasts, analytics events,
  \<^verbatim>\<open>console.error\<close>, and the assignment to \<^verbatim>\<open>window.location.href\<close>. \<^verbatim>\<open>toast\<close> and
  \<^verbatim>\<open>window.gtag\<close> are taken not to throw. A state setter is taken not to throw either,
  but for \<^verbatim>\<open>setError(data.error)\<close> in \<^verbatim>\<open>generateModel\<close>, which is modelled with its
  exception (see \<open>renderable\<close> below).
\<close>

datatype effect =
    Fetch request
  | ToastError json
  | ToastInfo string
  | ToastSuccess string
  | TrackEvent string string string
  | ConsoleError
  | Navigate json

text \<open>
  A run threads the state being assigned and the effects so far. The functions of the
  component read the state through the constants of the render that created them: the
  snapshot \<open>c\<close> below. A setter changes the run's state, never the snapshot.
\<close>

record run =
  st :: app_state
  trace :: "effect list"

datatype completion = Returned | Threw js_error

definition setUser :: "identity option \<Rightarrow> run \<Rightarrow> run" where
  "setUser v r = r\<lparr>st := (st r)\<lparr>user := v\<rparr>\<rparr>"

definition setUserPlan :: "json \<Rightarrow> run \<Rightarrow> run" where
  "setUserPlan v r = r\<lparr>st := (st r)\<lparr>userPlan := v\<rparr>\<rparr>"

definition setModelUrl :: "json \<Rightarrow> run \<Rightarrow> run" where
  "setModelUrl v r = r\<lparr>st := (st r)\<lparr>modelUrl := v\<rparr>\<rparr>"

definition setError :: "json \<Rightarrow> run \<Rightarrow> run" where
  "setError v r = r\<lparr>st := (st r)\<lparr>error := v\<rparr>\<rparr>"

definition setIsLoading :: "bool \<Rightarrow> run \<Rightarrow> run" where
  "setIsLoading v r = r\<lparr>st := (st r)\<lparr>isLoading := v\<rparr>\<rparr>"

definition setShowSignIn :: "bool \<Rightarrow> run \<Rightarrow> run" where
  "setShowSignIn v r = r\<lparr>st := (st r)\<lparr>showSignIn := v\<rparr>\<rparr>"

definition setShowStripeModal :: "bool \<Rightarrow> run \<Rightarrow> run" where
  "setShowStripeModal v r = r\<lparr>st := (st r)\<lparr>showStripeModal := v\<rparr>\<rparr>"

definition emit :: "effect \<Rightarrow> run \<Rightarrow> run" where
  "emit e r = r\<lparr>trace := trace r @ [e]\<rparr>"

fun isFetch :: "effect \<Rightarrow> bool" where
  "isFetch (Fetch _) = True"
| "isFetch _ = False"

definition fetch :: "network \<Rightarrow> request \<Rightarrow> run \<Rightarrow> fetch_outcome \<times> run" where
  "fetch net req r = (net (length (filter isFetch (trace r))) req, emit (Fetch req) r)"

text \<open>
  Reading a property of a parsed body. Only an object has the properties read here
  (\<^verbatim>\<open>token\<close>, \<^verbatim>\<open>plan\<close>, \<^verbatim>\<open>error\<close>, \<^verbatim>\<open>modelUrl\<close>, \<^verbatim>\<open>url\<close>); on any other value except
  \<^verbatim>\<open>null\<close> the read gives \<^verbatim>\<open>undefined\<close>, here \<open>None\<close>. On \<^verbatim>\<open>null\<close> the read
  \<^verbatim>\<open>data.x\<close> throws (the callers below handle that case before they read) and the
  read \<^verbatim>\<open>data?.x\<close> gives \<^verbatim>\<open>undefined\<close>. The keys of an object are distinct.
\<close>

fun getProp :: "json \<Rightarrow> string \<Rightarrow> json option" where
  "getProp (JObj kvs) k = map_of kvs k"
| "getProp _ k = None"

text \<open>The value of a property when it is truthy: the test \<^verbatim>\<open>if (data?.x)\<close>.\<close>

definition truthyProp :: "json \<Rightarrow> string \<Rightarrow> json option" where
  "truthyProp data k =
     (case getProp data k of
        None \<Rightarrow> None
      | Some v \<Rightarrow> if jtruthy v then Some v else None)"

text \<open>
  The component renders the message as a child, \<^verbatim>\<open>{error && <p ...>{error}</p>}\<close>.
  React renders a string or a number as text, \<^verbatim>\<open>null\<close> and a boolean as nothing, and an
  array element by element; for an object it throws. After an \<^verbatim>\<open>await\<close> a state setter
  renders at once, so there \<^verbatim>\<open>setError(v)\<close> throws when \<open>v\<close> cannot be rendered.
\<close>

fun renderable :: "json \<Rightarrow> bool" where
  "renderable (JObj kvs) = False"
| "renderable (JArr vs) = list_all renderable vs"
| "renderable v = True"

section \<open>The functions of App\<close>

text \<open>
  \<^verbatim>\<open>getCsrfToken\<close>: one \<^verbatim>\<open>GET\<close>; every failure inside its \<^verbatim>\<open>try\<close> is caught and gives
  the empty token.
\<close>

definition csrfRequest :: request where
  "csrfRequest =
     \<lparr>url = ''/.netlify/functions/get-csrf-token'', req_method = GET, headers = [], body = NoBody\<rparr>"

definition getCsrfToken :: "network \<Rightarrow> run \<Rightarrow> json option \<times> run" where
  "getCsrfToken net r =
     (case fetch net csrfRequest r of
        (Rejected, r1) \<Rightarrow> (Some (JStr ''''), emit ConsoleError r1)
      | (Response ok NotJson, r1) \<Rightarrow> (Some (JStr ''''), emit ConsoleError r1)
      | (Response ok (Json data), r1) \<Rightarrow>
          (case data of
             JNull \<Rightarrow> (Some (JStr ''''), emit ConsoleError r1)
           | _ \<Rightarrow> (getProp data ''token'', r1)))"

text \<open>
  \<^verbatim>\<open>fetchUserPlan(uid)\<close>: the token is fetched while the options of the request are
  built, then the plan is requested; the status of the response is not looked at.
\<close>

definition planRequest :: "string \<Rightarrow> json option \<Rightarrow> request" where
  "planRequest u token =
     \<lparr>url = ''/.netlify/functions/get-user-plan?uid='' @ u, req_method = GET,
      headers = [(''X-CSRF-Token'', token)], body = NoBody\<rparr>"

definition fetchUserPlan :: "network \<Rightarrow> string \<Rightarrow> run \<Rightarrow> json option \<times> run" where
  "fetchUserPlan net u r =
     (case getCsrfToken net r of
        (token, r1) \<Rightarrow>
          (case fetch net (planRequest u token) r1 of
             (Rejected, r2) \<Rightarrow> (Some (JStr ''free''), emit ConsoleError r2)
           | (Response ok NotJson, r2) \<Rightarrow> (Some (JStr ''free''), emit ConsoleError r2)
           | (Response ok (Json data), r2) \<Rightarrow>
               (case data of
                  JNull \<Rightarrow> (Some (JStr ''free''), emit ConsoleError r2)
                | _ \<Rightarrow> (getProp data ''plan'', r2))))"

text \<open>
  The listener given to \<^verbatim>\<open>onAuthStateChanged\<close>: called with the signed-in user, or with
  \<^verbatim>\<open>null\<close> on sign-out. \<^verbatim>\<open>plan || "free"\<close> keeps a truthy plan.
\<close>

definition planOrFree :: "json option \<Rightarrow> json" where
  "planOrFree plan =
     (case plan of
        None \<Rightarrow> JStr ''free''
      | Some v \<Rightarrow> if jtruthy v then v else JStr ''free'')"

definition onAuthStateChanged :: "network \<Rightarrow> identity option \<Rightarrow> run \<Rightarrow> run" where
  "onAuthStateChanged net u r =
     (case u of
        Some usr \<Rightarrow>
          (case fetchUserPlan net (uid usr) (setUser (Some \<lparr>email = email usr, uid = uid usr\<rparr>) r) of
             (plan, r1) \<Rightarrow>
               emit (TrackEvent ''Auth'' ''SignIn'' (email usr)) (setUserPlan (planOrFree plan) r1))
      | None \<Rightarrow> setUserPlan (JStr ''free'') (setUser None r))"
text \<open>
  \<^verbatim>\<open>payForModel(priceId)\<close>, called with \<^verbatim>\<open>null\<close> or a string. \<^verbatim>\<open>modelUrl\<close> and
  \<^verbatim>\<open>user\<close> are read from the snapshot \<open>c\<close>. Every failure of the checkout exchange,
  the read of \<^verbatim>\<open>data.url\<close> on \<^verbatim>\<open>null\<close> included, is caught inside.
\<close>

definition checkoutRequest :: "string \<Rightarrow> json \<Rightarrow> string \<Rightarrow> json option \<Rightarrow> request" where
  "checkoutRequest p m u token =
     \<lparr>url = ''/.netlify/functions/create-checkout-session'', req_method = POST,
      headers = [(''Content-Type'', Some (JStr ''application/json'')), (''X-CSRF-Token'', token)],
      body = CheckoutBody p (if jtruthy m then m else JStr ''subscription'') u\<rparr>"

definition checkoutCatch :: "run \<Rightarrow> run" where
  "checkoutCatch r =
     setShowStripeModal False
       (emit (ToastError (JStr ''Checkout error.''))
          (setError (JStr ''Checkout error. Please try again.'') (emit ConsoleError r)))"

definition checkout :: "network \<Rightarrow> app_state \<Rightarrow> string \<Rightarrow> identity \<Rightarrow> run \<Rightarrow> run" where
  "checkout net c p usr r =
     (case getCsrfToken net (setShowStripeModal True r) of
        (token, r1) \<Rightarrow>
          (case fetch net (checkoutRequest p (modelUrl c) (uid usr) token) r1 of
             (Rejected, r2) \<Rightarrow> checkoutCatch r2
           | (Response ok NotJson, r2) \<Rightarrow> checkoutCatch r2
           | (Response ok (Json data), r2) \<Rightarrow>
               (case data of
                  JNull \<Rightarrow> checkoutCatch r2
                | _ \<Rightarrow>
                   (case truthyProp data ''url'' of
                      Some target \<Rightarrow>
                        emit (TrackEvent ''Payment'' ''CheckoutInitiated'' p) (emit (Navigate target) r2)
                    | None \<Rightarrow>
                        setShowStripeModal False
                          (emit (ToastError (JStr ''Checkout initiation failed.''))
                             (setError (JStr ''Failed to initiate checkout.'') r2))))))"

definition payForModel :: "network \<Rightarrow> app_state \<Rightarrow> string option \<Rightarrow> run \<Rightarrow> run" where
  "payForModel net c priceId r0 =
     (let r = setError (JStr '''') r0 in
      case priceId of
        None \<Rightarrow>
          emit (ToastInfo ''Free plan active.'') (setError (JStr ''This plan is included by default.'') r)
      | Some p \<Rightarrow>
          if p = [] then
            emit (ToastInfo ''Free plan active.'') (setError (JStr ''This plan is included by default.'') r)
          else if startsWith p ''price_'' \<and> \<not> jtruthy (modelUrl c) \<and> \<not> includesStr p ''sub'' then
            emit (ToastError (JStr ''Generate a model first.''))
              (setError (JStr ''Generate a model first before purchasing.'') r)
          else
            (case user c of
               None \<Rightarrow>
                 setShowSignIn True
                   (emit (ToastError (JStr ''Sign in required.''))
                      (setError (JStr ''Please sign in to subscribe or purchase.'') r))
             | Some usr \<Rightarrow> checkout net c p usr r))"

text \<open>The table \<^verbatim>\<open>PLANS\<close>, with the fields the logic reads.\<close>

record plan =
  plan_id :: string
  title :: string
  priceId :: "string option"

definition PLANS :: "plan list" where
  "PLANS =
     [\<lparr>plan_id = ''free'', title = ''Free'', priceId = None\<rparr>,
      \<lparr>plan_id = ''basic'', title = ''Basic'', priceId = Some ''price_1N9Z8x1234567890''\<rparr>,
      \<lparr>plan_id = ''pro'', title = ''Pro'', priceId = Some ''price_1N9Z8y1234567890''\<rparr>]"

text \<open>
  \<^verbatim>\<open>generateModel({prompt, width, height, depth, material, supports, infill,
  shellThickness, image, download = false})\<close>. A property the caller leaves out is
  \<^verbatim>\<open>undefined\<close>.
\<close>

record gen_args =
  prompt :: jsval
  width :: jsval
  height :: jsval
  depth :: jsval
  material :: jsval
  supports :: jsval
  infill :: jsval
  shellThickness :: jsval
  image_arg :: jsval
  download :: jsval

definition placeholderUrl :: string where
  "placeholderUrl = ''https://modelviewer.dev/shared-assets/models/Astronaut.glb''"

text \<open>\<^verbatim>\<open>window.__BACKEND_URL__ || "/.netlify/functions/generate"\<close>.\<close>

definition BACKEND :: "string option \<Rightarrow> string" where
  "BACKEND w =
     (case w of
        None \<Rightarrow> ''/.netlify/functions/generate''
      | Some u \<Rightarrow> if u = [] then ''/.netlify/functions/generate'' else u)"

text \<open>The default \<^verbatim>\<open>download = false\<close> applies to \<^verbatim>\<open>undefined\<close> only.\<close>

definition downloadFlag :: "gen_args \<Rightarrow> bool" where
  "downloadFlag a = (case download a of Undefined \<Rightarrow> False | v \<Rightarrow> truthy v)"

definition orImageBased :: "string \<Rightarrow> string" where
  "orImageBased sanitizedPrompt = (if sanitizedPrompt = [] then ''image-based'' else sanitizedPrompt)"

definition buildPayload ::
  "(string \<Rightarrow> jsnum) \<Rightarrow> app_state \<Rightarrow> gen_args \<Rightarrow> string \<Rightarrow> payload" where
  "buildPayload N c a sanitizedPrompt =
     \<lparr>p_prompt = sanitizedPrompt,
      p_width = ToNumber N (width a), p_height = ToNumber N (height a),
      p_depth = ToNumber N (depth a),
      p_material = material a, p_supports = supports a,
      p_infill = ToNumber N (infill a), p_shellThickness = ToNumber N (shellThickness a),
      p_image = image_arg a,
      p_userId = (case user c of None \<Rightarrow> None | Some usr \<Rightarrow> if uid usr = [] then None else Some (uid usr)),
      p_format = (if downloadFlag a then ''stl'' else ''glb'')\<rparr>"

definition generateRequest :: "string option \<Rightarrow> payload \<Rightarrow> json option \<Rightarrow> request" where
  "generateRequest w pl token =
     \<lparr>url = BACKEND w, req_method = POST,
      headers = [(''Content-Type'', Some (JStr ''application/json'')), (''X-CSRF-Token'', token)],
      body = GenerateBody pl\<rparr>"

text \<open>The \<^verbatim>\<open>catch\<close> block of \<^verbatim>\<open>generateModel\<close>.\<close>

definition generateCatch :: "run \<Rightarrow> run" where
  "generateCatch r =
     setModelUrl (JStr placeholderUrl)
       (emit (ToastError (JStr ''Network error.''))
          (setError (JStr ''Network error. Using placeholder preview.'') (emit ConsoleError r)))"

text \<open>
  The \<^verbatim>\<open>try\<close> block with its \<^verbatim>\<open>catch\<close>, from the point where the \<^verbatim>\<open>fetch\<close> has
  settled with the outcome \<open>out\<close>: a rejected \<^verbatim>\<open>fetch\<close> and a throwing \<^verbatim>\<open>resp.json()\<close>
  go to the \<^verbatim>\<open>catch\<close> block, and so does \<^verbatim>\<open>setError(data.error)\<close> when the error of
  the body cannot be rendered (every other value assigned inside the block is a string,
  or is \<^verbatim>\<open>modelUrl\<close>, which is rendered as an attribute); the two early \<^verbatim>\<open>return\<close>s
  leave through \<^verbatim>\<open>finally\<close> like every other path.
\<close>

definition generateResponse ::
  "network \<Rightarrow> app_state \<Rightarrow> gen_args \<Rightarrow> string \<Rightarrow> fetch_outcome \<Rightarrow> run \<Rightarrow> run" where
  "generateResponse net c a sanitizedPrompt out r2 =
     (case out of
        Rejected \<Rightarrow> generateCatch r2
      | Response ok b \<Rightarrow>
          if \<not> ok then
            setIsLoading False
              (setModelUrl (JStr placeholderUrl)
                 (emit (ToastError (JStr ''Backend error. Showing placeholder.''))
                    (setError (JStr ''Failed to generate model. Using placeholder preview.'') r2)))
          else
            (case b of
               NotJson \<Rightarrow> generateCatch r2
             | Json data \<Rightarrow>
                 (case truthyProp data ''error'' of
                    Some e \<Rightarrow>
                      if renderable e
                      then setIsLoading False (emit (ToastError e) (setError e r2))
                      else generateCatch r2
                  | None \<Rightarrow>
                      (case truthyProp data ''modelUrl'' of
                         Some m \<Rightarrow>
                           (let r3 =
                              emit (TrackEvent ''Generator''
                                      (if downloadFlag a then ''DownloadSuccess'' else ''GenerateSuccess'')
                                      (orImageBased sanitizedPrompt))
                                (emit (ToastSuccess
                                         (if downloadFlag a then ''Model downloaded!'' else ''Model generated!''))
                                   (setModelUrl m r2))
                            in if downloadFlag a \<and> userPlan c \<noteq> JStr ''pro''
                               then payForModel net c (Some ''price_1N9Z8z1234567890'') r3
                               else r3)
                       | None \<Rightarrow>
                           setModelUrl (JStr placeholderUrl)
                             (emit (ToastError (JStr ''No model URL. Showing placeholder.''))
                                (setError (JStr ''No model URL returned. Showing placeholder.'') r2))))))"

text \<open>
  The start of the \<^verbatim>\<open>try\<close> block: the token is fetched while the options of the request
  are built, then the payload is posted.
\<close>

definition generateTry ::
  "(string \<Rightarrow> jsnum) \<Rightarrow> network \<Rightarrow> string option \<Rightarrow> app_state \<Rightarrow> gen_args \<Rightarrow> string \<Rightarrow> run \<Rightarrow> run" where
  "generateTry N net w c a sanitizedPrompt r =
     (case getCsrfToken net r of
        (token, r1) \<Rightarrow>
          (case fetch net (generateRequest w (buildPayload N c a sanitizedPrompt) token) r1 of
             (out, r2) \<Rightarrow> generateResponse net c a sanitizedPrompt out r2))"

definition reject :: "string \<Rightarrow> string \<Rightarrow> run \<Rightarrow> completion \<times> run" where
  "reject msg toastMsg r = (Returned, emit (ToastError (JStr toastMsg)) (setError (JStr msg) r))"

text \<open>
  \<^verbatim>\<open>generateModel\<close>, started in the state \<open>c\<close> of the render that created it; \<open>N\<close> is
  \<^verbatim>\<open>Number\<close> on strings and \<open>T\<close> is \<^verbatim>\<open>String.prototype.trim\<close>.
  \<^verbatim>\<open>prompt.trim()\<close> is outside the \<^verbatim>\<open>try\<close>: when \<^verbatim>\<open>prompt\<close> is not a string the call
  throws a \<^verbatim>\<open>TypeError\<close> that nothing catches, and the promise of the call rejects.
\<close>

definition generateModel ::
  "(string \<Rightarrow> jsnum) \<Rightarrow> (string \<Rightarrow> string) \<Rightarrow> network \<Rightarrow> string option \<Rightarrow> app_state \<Rightarrow> gen_args \<Rightarrow> completion \<times> run" where
  "generateModel N T net w c a =
     (let r = setError (JStr '''') \<lparr>st = c, trace = []\<rparr> in
      case prompt a of
        Str p \<Rightarrow>
          (let sanitizedPrompt = sanitizeInput (T p) in
           if sanitizedPrompt = [] \<and> \<not> truthy (image_arg a) then
             reject ''Please provide a description or upload an image.''
               ''Description or image required.'' r
           else if \<not> validDimension N (width a) \<or> \<not> validDimension N (height a)
                   \<or> \<not> validDimension N (depth a) then
             reject ''Enter valid width, height, and depth in millimeters (numbers > 0).''
               ''Invalid dimensions.'' r
           else if num_lt (ToNumber N (infill a)) (Finite 0)
                   \<or> num_lt (Finite 100) (ToNumber N (infill a)) then
             reject ''Infill must be between 0 and 100%.'' ''Invalid infill percentage.'' r
           else if num_lt (ToNumber N (shellThickness a)) (Finite (4 / 10)) then
             reject ''Shell thickness must be at least 0.4mm.'' ''Invalid shell thickness.'' r
           else
             (Returned,
              setIsLoading False
                (generateTry N net w c a sanitizedPrompt
                   (emit (TrackEvent ''Generator'' ''GenerateAttempt'' (orImageBased sanitizedPrompt))
                      (setModelUrl JNull (setIsLoading True r))))))
      | _ \<Rightarrow> (Threw TypeError, r))"

text \<open>A call that leaves every property out.\<close>

definition noArgs :: gen_args where
  "noArgs =
     \<lparr>prompt = Undefined, width = Undefined, height = Undefined, depth = Undefined,
      material = Undefined, supports = Undefined, infill = Undefined,
      shellThickness = Undefined, image_arg = Undefined, download = Undefined\<rparr>"

text \<open>The download button: \<^verbatim>\<open>onClick={() => generateModel({ download: true })}\<close>.\<close>

definition downloadClick :: gen_args where
  "downloadClick = noArgs\<lparr>download := Bool True\<rparr>"

section \<open>Observations and the statements of the specification\<close>

text \<open>
  The source has no separate validator and no error kinds: a rule that fails is known by
  the message it assigns and the toast it shows. The four kinds of the specification and
  the texts of the source:
\<close>

datatype validation_error = MissingInput | InvalidDimension | InvalidInfill | InvalidShellThickness

fun message :: "validation_error \<Rightarrow> string" where
  "message MissingInput = ''Please provide a description or upload an image.''"
| "message InvalidDimension = ''Enter valid width, height, and depth in millimeters (numbers > 0).''"
| "message InvalidInfill = ''Infill must be between 0 and 100%.''"
| "message InvalidShellThickness = ''Shell thickness must be at least 0.4mm.''"

fun toastText :: "validation_error \<Rightarrow> string" where
  "toastText MissingInput = ''Description or image required.''"
| "toastText InvalidDimension = ''Invalid dimensions.''"
| "toastText InvalidInfill = ''Invalid infill percentage.''"
| "toastText InvalidShellThickness = ''Invalid shell thickness.''"

text \<open>
  The rules in the words of the specification. A dimension is bad when it is absent
  (falsy), non-numeric (\<^verbatim>\<open>NaN\<close>), non-finite, or not greater than 0. A number is outside
  \<open>[0, 100]\<close> when it is below 0 or above 100, and \<^verbatim>\<open>NaN\<close> is neither; likewise
  \<^verbatim>\<open>NaN\<close> is not less than 0.4.
\<close>

fun notPositive :: "jsnum \<Rightarrow> bool" where
  "notPositive NaN = True"
| "notPositive PosInfinity = True"
| "notPositive NegInfinity = True"
| "notPositive (Finite q) = (q \<le> 0)"

definition badDimension :: "(string \<Rightarrow> jsnum) \<Rightarrow> jsval \<Rightarrow> bool" where
  "badDimension N v = (\<not> truthy v \<or> notPositive (ToNumber N v))"

fun outside_0_100 :: "jsnum \<Rightarrow> bool" where
  "outside_0_100 NaN = False"
| "outside_0_100 PosInfinity = True"
| "outside_0_100 NegInfinity = True"
| "outside_0_100 (Finite q) = (q < 0 \<or> 100 < q)"

fun below_0_4 :: "jsnum \<Rightarrow> bool" where
  "below_0_4 NaN = False"
| "below_0_4 PosInfinity = False"
| "below_0_4 NegInfinity = True"
| "below_0_4 (Finite q) = (q < 4 / 10)"

definition spec_validate ::
  "(string \<Rightarrow> jsnum) \<Rightarrow> string \<Rightarrow> gen_args \<Rightarrow> validation_error option" where
  "spec_validate N sanitizedPrompt a =
     (if sanitizedPrompt = [] \<and> \<not> truthy (image_arg a) then Some MissingInput
      else if badDimension N (width a) \<or> badDimension N (height a) \<or> badDimension N (depth a)
        then Some InvalidDimension
      else if outside_0_100 (ToNumber N (infill a)) then Some InvalidInfill
      else if below_0_4 (ToNumber N (shellThickness a)) then Some InvalidShellThickness
      else None)"

text \<open>The requests of a run, and its \<^verbatim>\<open>POST\<close>s to an address.\<close>

definition fetches :: "run \<Rightarrow> effect list" where
  "fetches r = filter isFetch (trace r)"

fun isPostTo :: "string \<Rightarrow> effect \<Rightarrow> bool" where
  "isPostTo u (Fetch q) = (url q = u \<and> req_method q = POST)"
| "isPostTo u _ = False"

definition posts :: "string \<Rightarrow> run \<Rightarrow> effect list" where
  "posts u r = filter (isPostTo u) (trace r)"

text \<open>
  The decision of the payment gate, as a run of \<^verbatim>\<open>payForModel\<close> shows it: the checkout
  request was sent, or one of the three messages was assigned.
\<close>

datatype gate_decision = NoActionNeeded | BlockedNeedsModel | BlockedNeedsSignIn | ProceedToCheckout

definition observedGate :: "run \<Rightarrow> gate_decision option" where
  "observedGate r =
     (if posts ''/.netlify/functions/create-checkout-session'' r \<noteq> [] then Some ProceedToCheckout
      else if error (st r) = JStr ''This plan is included by default.'' then Some NoActionNeeded
      else if error (st r) = JStr ''Generate a model first before purchasing.'' then Some BlockedNeedsModel
      else if error (st r) = JStr ''Please sign in to subscribe or purchase.'' then Some BlockedNeedsSignIn
      else None)"

text \<open>
  A one-time purchase identifier, by the test of the source: it starts with
  \<^verbatim>\<open>price_\<close> and does not contain \<^verbatim>\<open>sub\<close>.
\<close>

definition oneTimePurchase :: "string \<Rightarrow> bool" where
  "oneTimePurchase p = (startsWith p ''price_'' \<and> \<not> includesStr p ''sub'')"

text \<open>
  The decision table as the specification words it: sign-in is asked for when a result
  exists and no identity is present.
\<close>

definition spec_gate :: "app_state \<Rightarrow> string option \<Rightarrow> gate_decision" where
  "spec_gate c pid =
     (case pid of
        None \<Rightarrow> NoActionNeeded
      | Some p \<Rightarrow>
          if p = [] then NoActionNeeded
          else if oneTimePurchase p \<and> \<not> jtruthy (modelUrl c) then BlockedNeedsModel
          else if jtruthy (modelUrl c) \<and> user c = None then BlockedNeedsSignIn
          else ProceedToCheckout)"

text \<open>The table with the sign-in check as the source has it: whenever no identity is present.\<close>

definition gate :: "app_state \<Rightarrow> string option \<Rightarrow> gate_decision" where
  "gate c pid =
     (case pid of
        None \<Rightarrow> NoActionNeeded
      | Some p \<Rightarrow>
          if p = [] then NoActionNeeded
          else if oneTimePurchase p \<and> \<not> jtruthy (modelUrl c) then BlockedNeedsModel
          else if user c = None then BlockedNeedsSignIn
          else ProceedToCheckout)"

text \<open>
  The ways the exchange of \<^verbatim>\<open>fetchUserPlan\<close> throws inside its \<^verbatim>\<open>try\<close>: the
  \<^verbatim>\<open>fetch\<close> rejects, \<^verbatim>\<open>resp.json()\<close> throws, or \<^verbatim>\<open>data.plan\<close> is read on \<^verbatim>\<open>null\<close>.
\<close>

fun lookupThrows :: "fetch_outcome \<Rightarrow> bool" where
  "lookupThrows Rejected = True"
| "lookupThrows (Response ok NotJson) = True"
| "lookupThrows (Response ok (Json data)) = (data = JNull)"

text \<open>A plan that is absent: \<^verbatim>\<open>undefined\<close> or any other falsy value.\<close>

definition planAbsent :: "json option \<Rightarrow> bool" where
  "planAbsent plan = (case plan of None \<Rightarrow> True | Some v \<Rightarrow> \<not> jtruthy v)"

section \<open>Concrete inputs\<close>

text \<open>
  A conversion that agrees with \<^verbatim>\<open>Number\<close> on the strings of decimal digits used in the
  examples below (the empty string gives 0, a string with any other character
  \<^verbatim>\<open>NaN\<close>).
\<close>

definition isDigit :: "char \<Rightarrow> bool" where
  "isDigit ch = (48 \<le> (of_char ch :: nat) \<and> (of_char ch :: nat) \<le> 57)"

definition decimalNumber :: "string \<Rightarrow> jsnum" where
  "decimalNumber s =
     (if list_all isDigit s
      then Finite (of_nat (foldl (\<lambda>acc ch. 10 * acc + (of_char ch - 48)) 0 s))
      else NaN)"

text \<open>The initial state of \<^verbatim>\<open>App\<close>.\<close>

definition initialState :: app_state where
  "initialState =
     \<lparr>user = None, userPlan = JStr ''free'', modelUrl = JNull, error = JStr '''',
      isLoading = False, showSignUp = False, showSignIn = False, showStripeModal = False\<rparr>"

text \<open>A filled form: the values \<^verbatim>\<open>handleGenerate\<close> passes, with the defaults of the form.\<close>

definition cubeForm :: gen_args where
  "cubeForm =
     \<lparr>prompt = Str ''cube'', width = Str ''10'', height = Str ''20'', depth = Str ''30'',
      material = Str ''plastic'', supports = Bool False, infill = Num (Finite 20),
      shellThickness = Num (Finite (12 / 10)), image_arg = Null, download = Undefined\<rparr>"

text \<open>A network that answers the \<^verbatim>\<open>POST\<close>s with one outcome and rejects everything else.\<close>

definition answering :: "fetch_outcome \<Rightarrow> network" where
  "answering out = (\<lambda>n req. if req_method req = POST then out else Rejected)"

text \<open>A network that gives every request the same outcome.\<close>

definition replying :: "fetch_outcome \<Rightarrow> network" where
  "replying out = (\<lambda>n req. out)"

text \<open>The form with a blank description and an uploaded image, and with a depth of 0.\<close>

definition imageOnlyForm :: gen_args where
  "imageOnlyForm = cubeForm\<lparr>prompt := Str '' '', image_arg := Str ''data:image/png;base64,AAAA''\<rparr>"

definition zeroDepthForm :: gen_args where
  "zeroDepthForm = cubeForm\<lparr>depth := Str ''0''\<rparr>"

text \<open>The form with a description that is one no-break space, and no image.\<close>

definition nbspForm :: gen_args where
  "nbspForm = cubeForm\<lparr>prompt := Str [CHR 0xA0]\<rparr>"

text \<open>Response bodies.\<close>

definition modelBody :: json where
  "modelBody = JObj [(''modelUrl'', JStr ''https://x/y.glb'')]"

definition errorBody :: json where
  "errorBody = JObj [(''error'', JStr ''quota exceeded'')]"

definition errorModelBody :: json where
  "errorModelBody = JObj [(''modelUrl'', JStr ''https://x/y.glb''), (''error'', JStr ''quota exceeded'')]"

definition emptyUrlBody :: json where
  "emptyUrlBody = JObj [(''modelUrl'', JStr '''')]"

definition emptyBody :: json where
  "emptyBody = JObj []"

text \<open>A signed-in session without and with a generated model.\<close>

definition signedIn :: app_state where
  "signedIn = initialState\<lparr>user := Some \<lparr>email = ''ada@example.com'', uid = ''u1''\<rparr>\<rparr>"

definition signedInWithModel :: app_state where
  "signedInWithModel = signedIn\<lparr>modelUrl := JStr ''https://x/y.glb''\<rparr>"

section \<open>Validation\<close>

lemma validDimension_iff: "validDimension N v \<longleftrightarrow> \<not> badDimension N v"
  by (cases "ToNumber N v") (auto simp: validDimension_def badDimension_def Let_def)

lemma infill_iff: "(num_lt n (Finite 0) \<or> num_lt (Finite 100) n) \<longleftrightarrow> outside_0_100 n"
  by (cases n) auto

lemma shell_iff: "num_lt n (Finite (4 / 10)) \<longleftrightarrow> below_0_4 n"
  by (cases n) auto

lemma shell_iff2: "num_lt n (Finite (2 / 5)) \<longleftrightarrow> below_0_4 n"
  by (cases n) auto

lemma generateModel_rejects:
  assumes "prompt a = Str p" and "spec_validate N (sanitizeInput (T p)) a = Some e"
  shows "generateModel N T net w c a =
           (Returned, \<lparr>st = c\<lparr>error := JStr (message e)\<rparr>, trace = [ToastError (JStr (toastText e))]\<rparr>)"
  using assms
  by (auto simp: generateModel_def spec_validate_def validDimension_iff infill_iff shell_iff shell_iff2
      reject_def setError_def emit_def Let_def split: if_splits)

lemma generateModel_accepts:
  assumes "prompt a = Str p" and "spec_validate N (sanitizeInput (T p)) a = None"
  shows "generateModel N T net w c a =
           (Returned,
            setIsLoading False
              (generateTry N net w c a (sanitizeInput (T p))
                 \<lparr>st = c\<lparr>error := JStr '''', isLoading := True, modelUrl := JNull\<rparr>,
                  trace = [TrackEvent ''Generator'' ''GenerateAttempt''
                             (orImageBased (sanitizeInput (T p)))]\<rparr>))"
  using assms
  by (auto simp: generateModel_def spec_validate_def validDimension_iff infill_iff shell_iff shell_iff2
      setError_def setIsLoading_def setModelUrl_def emit_def Let_def split: if_splits)

section \<open>State and trace of the helper functions\<close>

lemma setters_trace [simp]:
  "trace (setUser u r) = trace r" "trace (setUserPlan j r) = trace r"
  "trace (setModelUrl j r) = trace r" "trace (setError j r) = trace r"
  "trace (setIsLoading b r) = trace r" "trace (setShowSignIn b r) = trace r"
  "trace (setShowStripeModal b r) = trace r"
  by (simp_all add: setUser_def setUserPlan_def setModelUrl_def setError_def setIsLoading_def
      setShowSignIn_def setShowStripeModal_def)

lemma emit_simps [simp]: "trace (emit e r) = trace r @ [e]" "st (emit e r) = st r"
  by (simp_all add: emit_def)

lemma setters_st [simp]:
  "st (setUser u r) = (st r)\<lparr>user := u\<rparr>" "st (setUserPlan j r) = (st r)\<lparr>userPlan := j\<rparr>"
  "st (setModelUrl j r) = (st r)\<lparr>modelUrl := j\<rparr>" "st (setError j r) = (st r)\<lparr>error := j\<rparr>"
  "st (setIsLoading b r) = (st r)\<lparr>isLoading := b\<rparr>" "st (setShowSignIn b r) = (st r)\<lparr>showSignIn := b\<rparr>"
  "st (setShowStripeModal b r) = (st r)\<lparr>showStripeModal := b\<rparr>"
  by (simp_all add: setUser_def setUserPlan_def setModelUrl_def setError_def setIsLoading_def
      setShowSignIn_def setShowStripeModal_def)

lemma fetch_simps [simp]:
  "fst (fetch net req r) = net (length (filter isFetch (trace r))) req"
  "snd (fetch net req r) = emit (Fetch req) r"
  by (simp_all add: fetch_def)

lemma getCsrfToken_st [simp]: "st (snd (getCsrfToken net r)) = st r"
  by (auto simp: getCsrfToken_def fetch_def
      split: fetch_outcome.splits response_body.splits json.splits)

lemma getCsrfToken_trace:
  "\<exists>es. trace (snd (getCsrfToken net r)) = trace r @ Fetch csrfRequest # es
     \<and> filter isFetch es = []"
  by (auto simp: getCsrfToken_def fetch_def
      split: fetch_outcome.splits response_body.splits json.splits)

lemma checkoutCatch_simps [simp]:
  "trace (checkoutCatch r) = trace r @ [ConsoleError, ToastError (JStr ''Checkout error.'')]"
  "modelUrl (st (checkoutCatch r)) = modelUrl (st r)"
  "isLoading (st (checkoutCatch r)) = isLoading (st r)"
  by (simp_all add: checkoutCatch_def)

lemma checkout_keeps:
  "modelUrl (st (checkout net c p usr r)) = modelUrl (st r)
   \<and> isLoading (st (checkout net c p usr r)) = isLoading (st r)"
proof -
  obtain tok r1 where g: "getCsrfToken net (setShowStripeModal True r) = (tok, r1)"
    by (cases "getCsrfToken net (setShowStripeModal True r)")
  have "st r1 = st (setShowStripeModal True r)"
    using getCsrfToken_st [of net "setShowStripeModal True r"] g by simp
  then show ?thesis
    by (simp add: checkout_def g fetch_def split: fetch_outcome.splits response_body.splits json.splits option.splits prod.splits)
qed

lemma payForModel_keeps:
  "modelUrl (st (payForModel net c pid r)) = modelUrl (st r)
   \<and> isLoading (st (payForModel net c pid r)) = isLoading (st r)"
  by (simp add: payForModel_def checkout_keeps Let_def split: option.splits)

lemma checkout_trace: "\<exists>es. trace (checkout net c p usr r) = trace r @ es"
proof -
  obtain tok r1 where g: "getCsrfToken net (setShowStripeModal True r) = (tok, r1)"
    by (cases "getCsrfToken net (setShowStripeModal True r)")
  obtain es where "trace r1 = trace r @ Fetch csrfRequest # es"
    using getCsrfToken_trace [of net "setShowStripeModal True r"] g by auto
  then show ?thesis
    by (simp add: checkout_def g fetch_def split: fetch_outcome.splits response_body.splits json.splits option.splits prod.splits)
qed

lemma payForModel_trace: "\<exists>es. trace (payForModel net c pid r) = trace r @ es"
  using checkout_trace [of net c _ _ "setError (JStr '''') r"]
  by (simp add: payForModel_def Let_def split: option.splits)

section \<open>The try block\<close>

lemma generateCatch_simps [simp]:
  "trace (generateCatch r) = trace r @ [ConsoleError, ToastError (JStr ''Network error.'')]"
  "st (generateCatch r) = (st r)\<lparr>error := JStr ''Network error. Using placeholder preview.'',
                                 modelUrl := JStr placeholderUrl\<rparr>"
  by (simp_all add: generateCatch_def)

lemma generateRequest_simps [simp]:
  "url (generateRequest w pl tok) = BACKEND w" "req_method (generateRequest w pl tok) = POST"
  by (simp_all add: generateRequest_def)

lemma generateTry_unfold:
  assumes net: "\<And>n req. req_method req = POST \<Longrightarrow> url req = BACKEND w \<Longrightarrow> net n req = out"
  shows "\<exists>tok es.
           filter isFetch es = []
         \<and> generateTry N net w c a sp r =
             generateResponse net c a sp out
               (r\<lparr>trace := trace r @ Fetch csrfRequest # es
                          @ [Fetch (generateRequest w (buildPayload N c a sp) tok)]\<rparr>)"
proof -
  obtain tok r1 where g: "getCsrfToken net r = (tok, r1)"
    by (cases "getCsrfToken net r")
  obtain es where es: "trace r1 = trace r @ Fetch csrfRequest # es" "filter isFetch es = []"
    using getCsrfToken_trace [of net r] g by auto
  have s: "st r1 = st r" using getCsrfToken_st [of net r] g by simp
  have r1: "r1 = r\<lparr>trace := trace r @ Fetch csrfRequest # es\<rparr>"
    using es s by (cases r, cases r1) simp
  have n: "net k (generateRequest w (buildPayload N c a sp) tok) = out" for k
    by (rule net) simp_all
  have "generateTry N net w c a sp r =
             generateResponse net c a sp out
               (r\<lparr>trace := trace r @ Fetch csrfRequest # es
                          @ [Fetch (generateRequest w (buildPayload N c a sp) tok)]\<rparr>)"
    by (simp add: generateTry_def g fetch_def n r1 emit_def)
  with es(2) show ?thesis by blast
qed

lemma generateResponse_trace: "\<exists>es. trace (generateResponse net c a sp out r) = trace r @ es"
proof -
  have pay: "\<exists>es. trace (payForModel net c pid (emit e1 (emit e2 (setModelUrl m r)))) = trace r @ es"
    for pid e1 e2 m
  proof -
    obtain es where "trace (payForModel net c pid (emit e1 (emit e2 (setModelUrl m r))))
        = trace (emit e1 (emit e2 (setModelUrl m r))) @ es"
      using payForModel_trace by blast
    then show ?thesis by simp
  qed
  show ?thesis
    by (simp add: generateResponse_def Let_def pay
        split: fetch_outcome.splits response_body.splits option.splits)
qed

lemma generateTry_posts: "posts (BACKEND w) (generateTry N net w c a sp r) \<noteq> []"
proof -
  obtain tok r1 where g: "getCsrfToken net r = (tok, r1)"
    by (cases "getCsrfToken net r")
  let ?req = "generateRequest w (buildPayload N c a sp) tok"
  obtain out r2 where f: "fetch net ?req r1 = (out, r2)"
    by (cases "fetch net ?req r1")
  then have "trace r2 = trace r1 @ [Fetch ?req]"
    by (auto simp: fetch_def)
  moreover obtain es where "trace (generateResponse net c a sp out r2) = trace r2 @ es"
    using generateResponse_trace by blast
  ultimately have "Fetch ?req \<in> set (trace (generateTry N net w c a sp r))"
    by (simp add: generateTry_def g f)
  moreover have "isPostTo (BACKEND w) (Fetch ?req)" by simp
  ultimately have "Fetch ?req \<in> set (posts (BACKEND w) (generateTry N net w c a sp r))"
    by (simp add: posts_def)
  then show ?thesis by auto
qed

lemma observations_setIsLoading [simp]:
  "posts u (setIsLoading b r) = posts u r" "fetches (setIsLoading b r) = fetches r"
  by (simp_all add: posts_def fetches_def)

lemma isPostTo_isFetch: "isPostTo u e \<Longrightarrow> isFetch e"
  by (cases e) simp_all

lemma no_fetch_no_post: "filter isFetch es = [] \<Longrightarrow> filter (isPostTo u) es = []"
  by (auto simp: filter_empty_conv dest: isPostTo_isFetch)

lemma csrfRequest_method [simp]: "req_method csrfRequest = GET"
  by (simp add: csrfRequest_def)

section \<open>The payment gate and the plan lookup\<close>

lemma checkout_posts:
  "posts ''/.netlify/functions/create-checkout-session'' (checkout net c p usr r) \<noteq> []"
proof -
  obtain tok r1 where g: "getCsrfToken net (setShowStripeModal True r) = (tok, r1)"
    by (cases "getCsrfToken net (setShowStripeModal True r)")
  let ?req = "checkoutRequest p (modelUrl c) (uid usr) tok"
  have "Fetch ?req \<in> set (trace (checkout net c p usr r))"
    by (simp add: checkout_def g fetch_def
        split: fetch_outcome.splits response_body.splits json.splits option.splits prod.splits)
  moreover have "isPostTo ''/.netlify/functions/create-checkout-session'' (Fetch ?req)"
    by (simp add: checkoutRequest_def)
  ultimately have "Fetch ?req \<in> set (posts ''/.netlify/functions/create-checkout-session'' (checkout net c p usr r))"
    by (simp add: posts_def)
  then show ?thesis by auto
qed

lemma getCsrfToken_setUser:
  "getCsrfToken net (setUser x r) = (fst (getCsrfToken net r), setUser x (snd (getCsrfToken net r)))"
  by (simp add: getCsrfToken_def fetch_def setUser_def emit_def
      split: fetch_outcome.splits response_body.splits json.splits)

lemma fetchUserPlan_setUser:
  "fst (fetchUserPlan net u (setUser x r)) = fst (fetchUserPlan net u r)"
proof -
  obtain tok r1 where g: "getCsrfToken net r = (tok, r1)"
    by (cases "getCsrfToken net r")
  then have g': "getCsrfToken net (setUser x r) = (tok, setUser x r1)"
    by (simp add: getCsrfToken_setUser)
  show ?thesis
    by (simp add: fetchUserPlan_def g g' fetch_def
        split: fetch_outcome.splits response_body.splits json.splits)
qed

lemma fetchUserPlan_throws:
  assumes "\<And>n tok. net n (planRequest u tok) = out" and "lookupThrows out"
  shows "fst (fetchUserPlan net u r) = Some (JStr ''free'')"
proof -
  obtain tok r1 where g: "getCsrfToken net r = (tok, r1)"
    by (cases "getCsrfToken net r")
  from assms(2) show ?thesis
    by (cases out rule: lookupThrows.cases) (simp_all add: fetchUserPlan_def g fetch_def assms(1))
qed

lemma onAuthStateChanged_plan:
  "userPlan (st (onAuthStateChanged net (Some usr) r)) = planOrFree (fst (fetchUserPlan net (uid usr) r))"
proof -
  let ?r = "setUser (Some \<lparr>email = email usr, uid = uid usr\<rparr>) r"
  obtain plan r1 where f: "fetchUserPlan net (uid usr) ?r = (plan, r1)"
    by (cases "fetchUserPlan net (uid usr) ?r")
  have "plan = fst (fetchUserPlan net (uid usr) r)"
    using fetchUserPlan_setUser [of net "uid usr" _ r] f by (metis fst_conv)
  then show ?thesis
    by (simp add: onAuthStateChanged_def f)
qed

section \<open>The dispatch on a successful status\<close>

lemma generateModel_error_field:
  assumes "prompt a = Str p"
    and "spec_validate N (sanitizeInput (T p)) a = None"
    and net: "\<And>n req. req_method req = POST \<Longrightarrow> url req = BACKEND w \<Longrightarrow> net n req = Response True (Json data)"
    and "truthyProp data ''error'' = Some e"
    and "renderable e"
  shows "error (st (snd (generateModel N T net w c a))) = e
       \<and> modelUrl (st (snd (generateModel N T net w c a))) = JNull
       \<and> isLoading (st (snd (generateModel N T net w c a))) = False"
proof -
  let ?sp = "sanitizeInput (T p)"
  let ?r0 = "\<lparr>st = c\<lparr>error := JStr '''', isLoading := True, modelUrl := JNull\<rparr>,
              trace = [TrackEvent ''Generator'' ''GenerateAttempt'' (orImageBased ?sp)]\<rparr>"
  have g: "generateModel N T net w c a = (Returned, setIsLoading False (generateTry N net w c a ?sp ?r0))"
    using assms(1,2) by (rule generateModel_accepts)
  obtain tok es where
    t: "generateTry N net w c a ?sp ?r0 =
              generateResponse net c a ?sp (Response True (Json data))
                (?r0\<lparr>trace := trace ?r0 @ Fetch csrfRequest # es
                          @ [Fetch (generateRequest w (buildPayload N c a ?sp) tok)]\<rparr>)"
    using generateTry_unfold [where net = net and w = w and out = "Response True (Json data)"
        and N = N and c = c and a = a and sp = "?sp" and r = "?r0"] net by blast
  show ?thesis
    by (simp add: g t generateResponse_def assms(4,5))
qed

lemma generateModel_error_not_renderable:
  assumes "prompt a = Str p"
    and "spec_validate N (sanitizeInput (T p)) a = None"
    and net: "\<And>n req. req_method req = POST \<Longrightarrow> url req = BACKEND w \<Longrightarrow> net n req = Response True (Json data)"
    and "truthyProp data ''error'' = Some e"
    and "\<not> renderable e"
  shows "error (st (snd (generateModel N T net w c a))) = JStr ''Network error. Using placeholder preview.''
       \<and> modelUrl (st (snd (generateModel N T net w c a))) = JStr placeholderUrl
       \<and> isLoading (st (snd (generateModel N T net w c a))) = False"
proof -
  let ?sp = "sanitizeInput (T p)"
  let ?r0 = "\<lparr>st = c\<lparr>error := JStr '''', isLoading := True, modelUrl := JNull\<rparr>,
              trace = [TrackEvent ''Generator'' ''GenerateAttempt'' (orImageBased ?sp)]\<rparr>"
  have g: "generateModel N T net w c a = (Returned, setIsLoading False (generateTry N net w c a ?sp ?r0))"
    using assms(1,2) by (rule generateModel_accepts)
  obtain tok es where
    t: "generateTry N net w c a ?sp ?r0 =
              generateResponse net c a ?sp (Response True (Json data))
                (?r0\<lparr>trace := trace ?r0 @ Fetch csrfRequest # es
                          @ [Fetch (generateRequest w (buildPayload N c a ?sp) tok)]\<rparr>)"
    using generateTry_unfold [where net = net and w = w and out = "Response True (Json data)"
        and N = N and c = c and a = a and sp = "?sp" and r = "?r0"] net by blast
  show ?thesis
    by (simp add: g t generateResponse_def assms(4,5))
qed

lemma generateModel_no_url:
  assumes "prompt a = Str p"
    and "spec_validate N (sanitizeInput (T p)) a = None"
    and net: "\<And>n req. req_method req = POST \<Longrightarrow> url req = BACKEND w \<Longrightarrow> net n req = Response True (Json data)"
    and "truthyProp data ''error'' = None"
    and "truthyProp data ''modelUrl'' = None"
  shows "error (st (snd (generateModel N T net w c a))) = JStr ''No model URL returned. Showing placeholder.''
       \<and> modelUrl (st (snd (generateModel N T net w c a))) = JStr placeholderUrl
       \<and> isLoading (st (snd (generateModel N T net w c a))) = False"
proof -
  let ?sp = "sanitizeInput (T p)"
  let ?r0 = "\<lparr>st = c\<lparr>error := JStr '''', isLoading := True, modelUrl := JNull\<rparr>,
              trace = [TrackEvent ''Generator'' ''GenerateAttempt'' (orImageBased ?sp)]\<rparr>"
  have g: "generateModel N T net w c a = (Returned, setIsLoading False (generateTry N net w c a ?sp ?r0))"
    using assms(1,2) by (rule generateModel_accepts)
  obtain tok es where
    t: "generateTry N net w c a ?sp ?r0 =
              generateResponse net c a ?sp (Response True (Json data))
                (?r0\<lparr>trace := trace ?r0 @ Fetch csrfRequest # es
                          @ [Fetch (generateRequest w (buildPayload N c a ?sp) tok)]\<rparr>)"
    using generateTry_unfold [where net = net and w = w and out = "Response True (Json data)"
        and N = N and c = c and a = a and sp = "?sp" and r = "?r0"] net by blast
  show ?thesis
    by (simp add: g t generateResponse_def assms(4,5))
qed

section \<open>The concrete inputs\<close>

lemma cubeForm_prompt: "prompt cubeForm = Str ''cube''"
  by (simp add: cubeForm_def)

lemma cubeForm_valid: "spec_validate decimalNumber (sanitizeInput (trim ''cube'')) cubeForm = None"
  by (simp add: spec_validate_def cubeForm_def badDimension_def decimalNumber_def isDigit_def
      sanitizeInput_def trim_def isWhiteSpace_def escapeChar_def)

lemma imageOnlyForm_prompt: "prompt imageOnlyForm = Str '' ''"
  by (simp add: imageOnlyForm_def cubeForm_def)

lemma imageOnlyForm_blank: "sanitizeInput (trim '' '') = []"
  by (simp add: sanitizeInput_def trim_def isWhiteSpace_def)

lemma imageOnlyForm_valid: "spec_validate decimalNumber (sanitizeInput (trim '' '')) imageOnlyForm = None"
  by (simp add: spec_validate_def imageOnlyForm_def cubeForm_def badDimension_def decimalNumber_def
      isDigit_def sanitizeInput_def trim_def isWhiteSpace_def)

lemma zeroDepthForm_prompt: "prompt zeroDepthForm = Str ''cube''"
  by (simp add: zeroDepthForm_def cubeForm_def)

lemma zeroDepthForm_invalid:
  "spec_validate decimalNumber (sanitizeInput (trim ''cube'')) zeroDepthForm = Some InvalidDimension"
  by (simp add: spec_validate_def zeroDepthForm_def cubeForm_def badDimension_def decimalNumber_def
      isDigit_def sanitizeInput_def trim_def isWhiteSpace_def escapeChar_def)

lemma nbspForm_prompt: "prompt nbspForm = Str [CHR 0xA0]"
  by (simp add: nbspForm_def cubeForm_def)

lemma nbspForm_invalid:
  "spec_validate decimalNumber (sanitizeInput (trim [CHR 0xA0])) nbspForm = Some MissingInput"
  by (simp add: spec_validate_def nbspForm_def cubeForm_def sanitizeInput_def trim_def isWhiteSpace_def)

lemma answering_post: "req_method req = POST \<Longrightarrow> url req = u \<Longrightarrow> answering out n req = out"
  by (simp add: answering_def)

section \<open>Properties of sanitizeInput\<close>

lemma escapeChar_clean:
  "c \<in> set (escapeChar m) \<Longrightarrow> c \<notin> {CHR ''<'', CHR ''>'', CHR 0x22, CHR 0x27}"
  by (auto simp: escapeChar_def split: if_splits)

lemma escapeChar_length: "1 \<le> length (escapeChar m)"
  by (simp add: escapeChar_def)

lemma sanitizeInput_length: "length input \<le> length (sanitizeInput input)"
proof (induction input)
  case Nil
  show ?case by (simp add: sanitizeInput_def)
next
  case (Cons m ms)
  have "1 \<le> length (escapeChar m)" by (rule escapeChar_length)
  with Cons show ?case by (simp add: sanitizeInput_def)
qed

lemma sanitizeInput_amp_longer:
  "CHR ''&'' \<in> set input \<Longrightarrow> length input < length (sanitizeInput input)"
proof (induction input)
  case Nil
  then show ?case by simp
next
  case (Cons m ms)
  show ?case
  proof (cases "m = CHR ''&''")
    case True
    have "length ms \<le> length (sanitizeInput ms)" by (rule sanitizeInput_length)
    with True show ?thesis by (simp add: sanitizeInput_def escapeChar_def)
  next
    case False
    with Cons.prems have "CHR ''&'' \<in> set ms" by simp
    from Cons.IH [OF this] escapeChar_length [of m]
    show ?thesis by (simp add: sanitizeInput_def)
  qed
qed

lemma sanitizeInput_keeps_amp:
  "CHR ''&'' \<in> set input \<Longrightarrow> CHR ''&'' \<in> set (sanitizeInput input)"
  by (induction input) (auto simp: sanitizeInput_def escapeChar_def)

lemma sanitizeInput_empty: "sanitizeInput input = [] \<longleftrightarrow> input = []"
proof
  assume "sanitizeInput input = []"
  with sanitizeInput_length [of input] show "input = []" by simp
next
  assume "input = []"
  then show "sanitizeInput input = []" by (simp add: sanitizeInput_def)
qed

text \<open>
  Claim C9. The string returned by \<open>sanitizeInput\<close> contains none of the characters
  \<^verbatim>\<open><\<close>, \<^verbatim>\<open>>\<close>, the double quote and the single quote: wherever one of them stands in
  the input, its HTML entity (\<^verbatim>\<open>&lt;\<close>, \<^verbatim>\<open>&gt;\<close>, \<^verbatim>\<open>&quot;\<close>, \<^verbatim>\<open>&#x27;\<close>) stands in the
  output, the ampersand becomes \<^verbatim>\<open>&amp;\<close>, every other character is kept, and the
  rest of the string is sanitized in the same way. Because the ampersand is rewritten
  the function is not idempotent: on a string that contains an ampersand a second
  application gives a result different from the first.
\<close>

theorem sanitizeInput_removes_markup:
  "(\<forall>c \<in> set (sanitizeInput input). c \<notin> {CHR ''<'', CHR ''>'', CHR 0x22, CHR 0x27})
   \<and> sanitizeInput [] = []
   \<and> sanitizeInput (xs @ CHR ''<'' # ys) = sanitizeInput xs @ ''&lt;'' @ sanitizeInput ys
   \<and> sanitizeInput (xs @ CHR ''>'' # ys) = sanitizeInput xs @ ''&gt;'' @ sanitizeInput ys
   \<and> sanitizeInput (xs @ CHR 0x22 # ys) = sanitizeInput xs @ ''&quot;'' @ sanitizeInput ys
   \<and> sanitizeInput (xs @ CHR 0x27 # ys) = sanitizeInput xs @ ''&#x27;'' @ sanitizeInput ys
   \<and> sanitizeInput (xs @ CHR ''&'' # ys) = sanitizeInput xs @ ''&amp;'' @ sanitizeInput ys
   \<and> (m \<notin> {CHR ''&'', CHR ''<'', CHR ''>'', CHR 0x22, CHR 0x27} \<longrightarrow>
        sanitizeInput (xs @ m # ys) = sanitizeInput xs @ m # sanitizeInput ys)
   \<and> (CHR ''&'' \<in> set input \<longrightarrow> sanitizeInput (sanitizeInput input) \<noteq> sanitizeInput input)"
proof (intro conjI)
  show "\<forall>c \<in> set (sanitizeInput input). c \<notin> {CHR ''<'', CHR ''>'', CHR 0x22, CHR 0x27}"
  proof
    fix c assume "c \<in> set (sanitizeInput input)"
    then obtain k where "c \<in> set (escapeChar k)"
      by (auto simp: sanitizeInput_def)
    then show "c \<notin> {CHR ''<'', CHR ''>'', CHR 0x22, CHR 0x27}"
      by (rule escapeChar_clean)
  qed
next
  show "sanitizeInput [] = []"
    by (simp add: sanitizeInput_def)
next
  show "sanitizeInput (xs @ CHR ''<'' # ys) = sanitizeInput xs @ ''&lt;'' @ sanitizeInput ys"
    by (simp add: sanitizeInput_def escapeChar_def)
next
  show "sanitizeInput (xs @ CHR ''>'' # ys) = sanitizeInput xs @ ''&gt;'' @ sanitizeInput ys"
    by (simp add: sanitizeInput_def escapeChar_def)
next
  show "sanitizeInput (xs @ CHR 0x22 # ys) = sanitizeInput xs @ ''&quot;'' @ sanitizeInput ys"
    by (simp add: sanitizeInput_def escapeChar_def)
next
  show "sanitizeInput (xs @ CHR 0x27 # ys) = sanitizeInput xs @ ''&#x27;'' @ sanitizeInput ys"
    by (simp add: sanitizeInput_def escapeChar_def)
next
  show "sanitizeInput (xs @ CHR ''&'' # ys) = sanitizeInput xs @ ''&amp;'' @ sanitizeInput ys"
    by (simp add: sanitizeInput_def escapeChar_def)
next
  show "m \<notin> {CHR ''&'', CHR ''<'', CHR ''>'', CHR 0x22, CHR 0x27} \<longrightarrow>
        sanitizeInput (xs @ m # ys) = sanitizeInput xs @ m # sanitizeInput ys"
    by (simp add: sanitizeInput_def escapeChar_def)
next
  show "CHR ''&'' \<in> set input \<longrightarrow> sanitizeInput (sanitizeInput input) \<noteq> sanitizeInput input"
  proof
    assume "CHR ''&'' \<in> set input"
    then have "CHR ''&'' \<in> set (sanitizeInput input)" by (rule sanitizeInput_keeps_amp)
    then have "length (sanitizeInput input) < length (sanitizeInput (sanitizeInput input))"
      by (rule sanitizeInput_amp_longer)
    then show "sanitizeInput (sanitizeInput input) \<noteq> sanitizeInput input" by auto
  qed
qed

text \<open>
  The string \<^verbatim>\<open><b>"'&\<close> holds the five characters; each is replaced by its entity, and
  a second application rewrites the ampersands again.
\<close>

theorem sanitizeInput_removes_markup_witness:
  "sanitizeInput [CHR ''<'', CHR ''b'', CHR ''>'', CHR 0x22, CHR 0x27, CHR ''&'']
     = ''&lt;b&gt;&quot;&#x27;&amp;''
   \<and> sanitizeInput ''a>b'' = ''a&gt;b''
   \<and> sanitizeInput [CHR ''a'', CHR 0x22, CHR ''b''] = ''a&quot;b''
   \<and> sanitizeInput [CHR ''a'', CHR 0x27, CHR ''b''] = ''a&#x27;b''
   \<and> sanitizeInput ''a<b'' = ''a&lt;b''
   \<and> sanitizeInput ''a&b'' = ''a&amp;b''
   \<and> CHR ''<'' \<notin> set (sanitizeInput [CHR ''<'', CHR ''b'', CHR ''>'', CHR 0x22, CHR 0x27, CHR ''&''])
   \<and> CHR ''>'' \<notin> set (sanitizeInput [CHR ''<'', CHR ''b'', CHR ''>'', CHR 0x22, CHR 0x27, CHR ''&''])
   \<and> CHR 0x22 \<notin> set (sanitizeInput [CHR ''<'', CHR ''b'', CHR ''>'', CHR 0x22, CHR 0x27, CHR ''&''])
   \<and> CHR 0x27 \<notin> set (sanitizeInput [CHR ''<'', CHR ''b'', CHR ''>'', CHR 0x22, CHR 0x27, CHR ''&''])
   \<and> sanitizeInput (sanitizeInput [CHR ''<'', CHR ''b'', CHR ''>'', CHR 0x22, CHR 0x27, CHR ''&''])
       \<noteq> sanitizeInput [CHR ''<'', CHR ''b'', CHR ''>'', CHR 0x22, CHR 0x27, CHR ''&'']"
proof -
  let ?s = "[CHR ''<'', CHR ''b'', CHR ''>'', CHR 0x22, CHR 0x27, CHR ''&'']"
  note ia = sanitizeInput_removes_markup [where input = ?s and xs = "[]" and m = "CHR ''a''" and ys = "[]"]
  note ib = sanitizeInput_removes_markup [where input = ?s and xs = "[]" and m = "CHR ''b''" and ys = "[]"]
  note i = sanitizeInput_removes_markup [where input = ?s and xs = "''a''" and m = "CHR ''b''" and ys = "''b''"]
  from ia have n: "sanitizeInput [] = []" by blast
  from ia have
    "CHR ''a'' \<notin> {CHR ''&'', CHR ''<'', CHR ''>'', CHR 0x22, CHR 0x27} \<longrightarrow>
       sanitizeInput ([] @ CHR ''a'' # []) = sanitizeInput [] @ CHR ''a'' # sanitizeInput []"
    by blast
  with n have a: "sanitizeInput ''a'' = ''a''" by simp
  from ib have
    "CHR ''b'' \<notin> {CHR ''&'', CHR ''<'', CHR ''>'', CHR 0x22, CHR 0x27} \<longrightarrow>
       sanitizeInput ([] @ CHR ''b'' # []) = sanitizeInput [] @ CHR ''b'' # sanitizeInput []"
    by blast
  with n have b: "sanitizeInput ''b'' = ''b''" by simp
  from i have "sanitizeInput (''a'' @ CHR ''>'' # ''b'') = sanitizeInput ''a'' @ ''&gt;'' @ sanitizeInput ''b''"
    by blast
  with a b have gt: "sanitizeInput ''a>b'' = ''a&gt;b''" by simp
  from i have "sanitizeInput (''a'' @ CHR 0x22 # ''b'') = sanitizeInput ''a'' @ ''&quot;'' @ sanitizeInput ''b''"
    by blast
  with a b have dq: "sanitizeInput [CHR ''a'', CHR 0x22, CHR ''b''] = ''a&quot;b''" by simp
  from i have "sanitizeInput (''a'' @ CHR 0x27 # ''b'') = sanitizeInput ''a'' @ ''&#x27;'' @ sanitizeInput ''b''"
    by blast
  with a b have sq: "sanitizeInput [CHR ''a'', CHR 0x27, CHR ''b''] = ''a&#x27;b''" by simp
  from i have "sanitizeInput (''a'' @ CHR ''<'' # ''b'') = sanitizeInput ''a'' @ ''&lt;'' @ sanitizeInput ''b''"
    by blast
  with a b have lt: "sanitizeInput ''a<b'' = ''a&lt;b''" by simp
  from i have "sanitizeInput (''a'' @ CHR ''&'' # ''b'') = sanitizeInput ''a'' @ ''&amp;'' @ sanitizeInput ''b''"
    by blast
  with a b have amp: "sanitizeInput ''a&b'' = ''a&amp;b''" by simp
  have e: "sanitizeInput ?s = ''&lt;b&gt;&quot;&#x27;&amp;''"
    by (simp add: sanitizeInput_def escapeChar_def)
  have m: "CHR ''&'' \<in> set ?s" by simp
  from i have c: "\<forall>c \<in> set (sanitizeInput ?s). c \<notin> {CHR ''<'', CHR ''>'', CHR 0x22, CHR 0x27}"
    by blast
  from i have "CHR ''&'' \<in> set ?s \<longrightarrow> sanitizeInput (sanitizeInput ?s) \<noteq> sanitizeInput ?s"
    by blast
  with m have d: "sanitizeInput (sanitizeInput ?s) \<noteq> sanitizeInput ?s" by blast
  from c have "CHR ''<'' \<notin> set (sanitizeInput ?s) \<and> CHR ''>'' \<notin> set (sanitizeInput ?s)
     \<and> CHR 0x22 \<notin> set (sanitizeInput ?s) \<and> CHR 0x27 \<notin> set (sanitizeInput ?s)"
    by blast
  with e gt dq sq lt amp d show ?thesis by blast
qed
section \<open>The validator of generateModel\<close>

text \<open>
  Claim C1. For raw form inputs (the description is a string) the validator inside
  \<open>generateModel\<close> applies its rules to the sanitized prompt, \<open>sanitizeInput\<close> of the
  trimmed description, and to the other fields, in the order MissingInput,
  InvalidDimension, InvalidInfill, InvalidShellThickness, as \<open>spec_validate\<close> words them,
  whatever the trimming function and the conversion of strings to numbers: the first rule
  that fails decides, the run returns with that rule's message and toast, and nothing
  else happens. When no rule fails the run goes on to post the payload to the backend.
  A blank description with an image and valid numbers is accepted. An infill or shell
  thickness that is \<^verbatim>\<open>NaN\<close> is neither outside the range nor below the bound, and
  passes.
\<close>

theorem generateModel_validation:
  assumes "prompt a = Str p"
  shows "case spec_validate N (sanitizeInput (T p)) a of
           Some e \<Rightarrow>
             generateModel N T net w c a =
               (Returned, \<lparr>st = c\<lparr>error := JStr (message e)\<rparr>,
                          trace = [ToastError (JStr (toastText e))]\<rparr>)
         | None \<Rightarrow>
             fst (generateModel N T net w c a) = Returned
             \<and> posts (BACKEND w) (snd (generateModel N T net w c a)) \<noteq> []"
proof (cases "spec_validate N (sanitizeInput (T p)) a")
  case None
  with assms show ?thesis
    by (simp add: generateModel_accepts generateTry_posts)
next
  case (Some e)
  with assms show ?thesis
    by (simp add: generateModel_rejects)
qed

theorem generateModel_validation_witness:
  "prompt imageOnlyForm = Str '' ''
   \<and> sanitizeInput (trim '' '') = []
   \<and> spec_validate decimalNumber (sanitizeInput (trim '' '')) imageOnlyForm = None
   \<and> fst (generateModel decimalNumber trim (answering Rejected) None initialState imageOnlyForm) = Returned
   \<and> posts (BACKEND None)
        (snd (generateModel decimalNumber trim (answering Rejected) None initialState imageOnlyForm)) \<noteq> []
   \<and> prompt zeroDepthForm = Str ''cube''
   \<and> spec_validate decimalNumber (sanitizeInput (trim ''cube'')) zeroDepthForm = Some InvalidDimension
   \<and> generateModel decimalNumber trim (answering Rejected) None initialState zeroDepthForm =
        (Returned,
         \<lparr>st = initialState\<lparr>error := JStr ''Enter valid width, height, and depth in millimeters (numbers > 0).''\<rparr>,
          trace = [ToastError (JStr ''Invalid dimensions.'')]\<rparr>)
   \<and> prompt nbspForm = Str [CHR 0xA0]
   \<and> spec_validate decimalNumber (sanitizeInput (trim [CHR 0xA0])) nbspForm = Some MissingInput
   \<and> generateModel decimalNumber trim (answering Rejected) None initialState nbspForm =
        (Returned,
         \<lparr>st = initialState\<lparr>error := JStr ''Please provide a description or upload an image.''\<rparr>,
          trace = [ToastError (JStr ''Description or image required.'')]\<rparr>)"
proof -
  have a: "fst (generateModel decimalNumber trim (answering Rejected) None initialState imageOnlyForm) = Returned
     \<and> posts (BACKEND None)
        (snd (generateModel decimalNumber trim (answering Rejected) None initialState imageOnlyForm)) \<noteq> []"
    using generateModel_validation [where a = imageOnlyForm and p = "'' ''" and N = decimalNumber and T = trim
        and net = "answering Rejected" and w = None and c = initialState, OF imageOnlyForm_prompt]
    by (simp add: imageOnlyForm_valid)
  have b: "generateModel decimalNumber trim (answering Rejected) None initialState zeroDepthForm =
        (Returned,
         \<lparr>st = initialState\<lparr>error := JStr ''Enter valid width, height, and depth in millimeters (numbers > 0).''\<rparr>,
          trace = [ToastError (JStr ''Invalid dimensions.'')]\<rparr>)"
    using generateModel_validation [where a = zeroDepthForm and p = "''cube''" and N = decimalNumber and T = trim
        and net = "answering Rejected" and w = None and c = initialState, OF zeroDepthForm_prompt]
    by (simp add: zeroDepthForm_invalid)
  have c: "generateModel decimalNumber trim (answering Rejected) None initialState nbspForm =
        (Returned,
         \<lparr>st = initialState\<lparr>error := JStr ''Please provide a description or upload an image.''\<rparr>,
          trace = [ToastError (JStr ''Description or image required.'')]\<rparr>)"
    using generateModel_validation [where a = nbspForm and p = "[CHR 0xA0]" and N = decimalNumber
        and T = trim and net = "answering Rejected" and w = None and c = initialState, OF nbspForm_prompt]
    by (simp add: nbspForm_invalid)
  from a b c imageOnlyForm_prompt imageOnlyForm_blank imageOnlyForm_valid
    zeroDepthForm_prompt zeroDepthForm_invalid nbspForm_prompt nbspForm_invalid
  show ?thesis by blast
qed

text \<open>
  Claim C2. When one of the four rules rejects, \<open>generateModel\<close> sends no request, and
  the state it leaves is the state it started in with the error message assigned: the
  generation result and the loading flag are unchanged.
\<close>

theorem generateModel_invalid_no_effects:
  assumes "prompt a = Str p" and "spec_validate N (sanitizeInput (T p)) a = Some e"
  shows "fetches (snd (generateModel N T net w c a)) = []
       \<and> modelUrl (st (snd (generateModel N T net w c a))) = modelUrl c
       \<and> isLoading (st (snd (generateModel N T net w c a))) = isLoading c
       \<and> st (snd (generateModel N T net w c a)) = c\<lparr>error := JStr (message e)\<rparr>"
  using assms by (simp add: generateModel_rejects fetches_def)

theorem generateModel_invalid_no_effects_witness:
  "prompt zeroDepthForm = Str ''cube''
   \<and> spec_validate decimalNumber (sanitizeInput (trim ''cube'')) zeroDepthForm = Some InvalidDimension
   \<and> fetches (snd (generateModel decimalNumber trim (answering Rejected) None signedInWithModel zeroDepthForm)) = []
   \<and> modelUrl (st (snd (generateModel decimalNumber trim (answering Rejected) None signedInWithModel zeroDepthForm)))
       = JStr ''https://x/y.glb''
   \<and> isLoading (st (snd (generateModel decimalNumber trim (answering Rejected) None signedInWithModel zeroDepthForm)))
       = False
   \<and> prompt nbspForm = Str [CHR 0xA0]
   \<and> spec_validate decimalNumber (sanitizeInput (trim [CHR 0xA0])) nbspForm = Some MissingInput
   \<and> fetches (snd (generateModel decimalNumber trim (answering Rejected) None signedInWithModel nbspForm)) = []
   \<and> st (snd (generateModel decimalNumber trim (answering Rejected) None signedInWithModel nbspForm))
       = signedInWithModel\<lparr>error := JStr ''Please provide a description or upload an image.''\<rparr>"
proof -
  have z: "fetches (snd (generateModel decimalNumber trim (answering Rejected) None signedInWithModel zeroDepthForm)) = []
     \<and> modelUrl (st (snd (generateModel decimalNumber trim (answering Rejected) None signedInWithModel zeroDepthForm)))
         = JStr ''https://x/y.glb''
     \<and> isLoading (st (snd (generateModel decimalNumber trim (answering Rejected) None signedInWithModel zeroDepthForm)))
         = False"
    using generateModel_invalid_no_effects [where a = zeroDepthForm and p = "''cube''"
        and N = decimalNumber and T = trim and e = InvalidDimension and net = "answering Rejected" and w = None
        and c = signedInWithModel, OF zeroDepthForm_prompt zeroDepthForm_invalid]
    by (simp add: signedInWithModel_def signedIn_def initialState_def)
  have n: "fetches (snd (generateModel decimalNumber trim (answering Rejected) None signedInWithModel nbspForm)) = []
     \<and> st (snd (generateModel decimalNumber trim (answering Rejected) None signedInWithModel nbspForm))
         = signedInWithModel\<lparr>error := JStr ''Please provide a description or upload an image.''\<rparr>"
    using generateModel_invalid_no_effects [where a = nbspForm and p = "[CHR 0xA0]"
        and N = decimalNumber and T = trim and e = MissingInput and net = "answering Rejected" and w = None
        and c = signedInWithModel, OF nbspForm_prompt nbspForm_invalid]
    by simp
  from z n zeroDepthForm_prompt zeroDepthForm_invalid nbspForm_prompt nbspForm_invalid
  show ?thesis by blast
qed

section \<open>The dispatcher of generateModel\<close>

text \<open>
  Claim C3, as amended. When the inputs are valid, the backend answers with a success
  status, and the body has no truthy \<^verbatim>\<open>error\<close> field and a truthy (for a string:
  non-empty) \<^verbatim>\<open>modelUrl\<close> field, the run returns with the generation result equal to
  exactly that value and the loading flag cleared. The test of \<^verbatim>\<open>data?.error\<close> comes
  first in the source, so a body with both fields is treated as an error.
\<close>

theorem generateModel_success_url:
  assumes "prompt a = Str p"
    and "spec_validate N (sanitizeInput (T p)) a = None"
    and net: "\<And>n req. req_method req = POST \<Longrightarrow> url req = BACKEND w \<Longrightarrow> net n req = Response True (Json data)"
    and "truthyProp data ''error'' = None"
    and "truthyProp data ''modelUrl'' = Some m"
  shows "fst (generateModel N T net w c a) = Returned
       \<and> modelUrl (st (snd (generateModel N T net w c a))) = m
       \<and> isLoading (st (snd (generateModel N T net w c a))) = False"
proof -
  let ?sp = "sanitizeInput (T p)"
  let ?r0 = "\<lparr>st = c\<lparr>error := JStr '''', isLoading := True, modelUrl := JNull\<rparr>,
              trace = [TrackEvent ''Generator'' ''GenerateAttempt'' (orImageBased ?sp)]\<rparr>"
  have g: "generateModel N T net w c a = (Returned, setIsLoading False (generateTry N net w c a ?sp ?r0))"
    using assms(1,2) by (rule generateModel_accepts)
  obtain tok es where
    t: "generateTry N net w c a ?sp ?r0 =
              generateResponse net c a ?sp (Response True (Json data))
                (?r0\<lparr>trace := trace ?r0 @ Fetch csrfRequest # es
                          @ [Fetch (generateRequest w (buildPayload N c a ?sp) tok)]\<rparr>)"
    using generateTry_unfold [where net = net and w = w and out = "Response True (Json data)" and N = N and c = c and a = a
        and sp = "?sp" and r = "?r0"] net by blast
  show ?thesis
    by (simp add: g t generateResponse_def assms(4,5) payForModel_keeps Let_def)
qed

theorem generateModel_success_url_witness:
  "prompt cubeForm = Str ''cube''
   \<and> spec_validate decimalNumber (sanitizeInput (trim ''cube'')) cubeForm = None
   \<and> truthyProp modelBody ''error'' = None
   \<and> truthyProp modelBody ''modelUrl'' = Some (JStr ''https://x/y.glb'')
   \<and> fst (generateModel decimalNumber trim (answering (Response True (Json modelBody))) None initialState cubeForm)
       = Returned
   \<and> modelUrl (st (snd (generateModel decimalNumber trim (answering (Response True (Json modelBody))) None
        initialState cubeForm))) = JStr ''https://x/y.glb''"
proof -
  have e: "truthyProp modelBody ''error'' = None"
    by (simp add: truthyProp_def modelBody_def)
  have m: "truthyProp modelBody ''modelUrl'' = Some (JStr ''https://x/y.glb'')"
    by (simp add: truthyProp_def modelBody_def)
  from generateModel_success_url [where a = cubeForm and p = "''cube''" and N = decimalNumber and T = trim
      and net = "answering (Response True (Json modelBody))" and w = None and c = initialState
      and data = modelBody and m = "JStr ''https://x/y.glb''",
      OF cubeForm_prompt cubeForm_valid answering_post e m]
  show ?thesis
    by (simp add: cubeForm_prompt cubeForm_valid e m)
qed

text \<open>
  The claim as first stated fails. A success response whose body has both a
  \<^verbatim>\<open>modelUrl\<close> and an \<^verbatim>\<open>error\<close> field leaves the result \<^verbatim>\<open>null\<close>, and one whose
  \<^verbatim>\<open>modelUrl\<close> is the empty string gets the placeholder.
\<close>

theorem generateModel_success_url_counterexample:
  "getProp errorModelBody ''modelUrl'' = Some (JStr ''https://x/y.glb'')
   \<and> modelUrl (st (snd (generateModel decimalNumber trim (answering (Response True (Json errorModelBody))) None
        initialState cubeForm))) = JNull
   \<and> getProp emptyUrlBody ''modelUrl'' = Some (JStr '''')
   \<and> modelUrl (st (snd (generateModel decimalNumber trim (answering (Response True (Json emptyUrlBody))) None
        initialState cubeForm))) = JStr ''https://modelviewer.dev/shared-assets/models/Astronaut.glb''"
proof -
  have e: "truthyProp errorModelBody ''error'' = Some (JStr ''quota exceeded'')"
    by (simp add: truthyProp_def errorModelBody_def)
  have s: "renderable (JStr ''quota exceeded'')"
    by simp
  have e': "truthyProp emptyUrlBody ''error'' = None"
    by (simp add: truthyProp_def emptyUrlBody_def)
  have m': "truthyProp emptyUrlBody ''modelUrl'' = None"
    by (simp add: truthyProp_def emptyUrlBody_def)
  from generateModel_error_field [where a = cubeForm and p = "''cube''" and N = decimalNumber and T = trim
      and net = "answering (Response True (Json errorModelBody))" and w = None and c = initialState
      and data = errorModelBody and e = "JStr ''quota exceeded''",
      OF cubeForm_prompt cubeForm_valid answering_post e s]
    generateModel_no_url [where a = cubeForm and p = "''cube''" and N = decimalNumber and T = trim
      and net = "answering (Response True (Json emptyUrlBody))" and w = None and c = initialState
      and data = emptyUrlBody, OF cubeForm_prompt cubeForm_valid answering_post e' m']
  show ?thesis
    by (simp add: errorModelBody_def emptyUrlBody_def placeholderUrl_def)
qed

text \<open>
  Claim C4. When the inputs are valid and the exchange with the backend fails (the
  \<^verbatim>\<open>fetch\<close> rejects, the body of a success response does not parse, or the status is
  not a success), \<open>generateModel\<close> returns with an error message assigned, the result set
  to the fixed placeholder address, and the loading flag cleared; the run has sent two
  requests, the token request and one \<^verbatim>\<open>POST\<close> to the backend, so nothing is retried.
  The source keeps no placeholder flag: the message names the placeholder.
\<close>

theorem generateModel_failure_placeholder:
  assumes "prompt a = Str p"
    and "spec_validate N (sanitizeInput (T p)) a = None"
    and net: "\<And>n req. req_method req = POST \<Longrightarrow> url req = BACKEND w \<Longrightarrow> net n req = out"
    and out: "case out of Rejected \<Rightarrow> True | Response ok b \<Rightarrow> \<not> ok \<or> b = NotJson"
  shows "fst (generateModel N T net w c a) = Returned
       \<and> error (st (snd (generateModel N T net w c a))) =
           JStr (case out of
                   Rejected \<Rightarrow> ''Network error. Using placeholder preview.''
                 | Response ok b \<Rightarrow>
                     if ok then ''Network error. Using placeholder preview.''
                     else ''Failed to generate model. Using placeholder preview.'')
       \<and> modelUrl (st (snd (generateModel N T net w c a))) =
           JStr ''https://modelviewer.dev/shared-assets/models/Astronaut.glb''
       \<and> isLoading (st (snd (generateModel N T net w c a))) = False
       \<and> length (fetches (snd (generateModel N T net w c a))) = 2
       \<and> length (posts (BACKEND w) (snd (generateModel N T net w c a))) = 1"
proof -
  let ?sp = "sanitizeInput (T p)"
  let ?r0 = "\<lparr>st = c\<lparr>error := JStr '''', isLoading := True, modelUrl := JNull\<rparr>,
              trace = [TrackEvent ''Generator'' ''GenerateAttempt'' (orImageBased ?sp)]\<rparr>"
  have g: "generateModel N T net w c a = (Returned, setIsLoading False (generateTry N net w c a ?sp ?r0))"
    using assms(1,2) by (rule generateModel_accepts)
  obtain tok es where es: "filter isFetch es = []"
    and t: "generateTry N net w c a ?sp ?r0 =
              generateResponse net c a ?sp out
                (?r0\<lparr>trace := trace ?r0 @ Fetch csrfRequest # es
                          @ [Fetch (generateRequest w (buildPayload N c a ?sp) tok)]\<rparr>)"
    using generateTry_unfold [where net = net and w = w and out = out and N = N and c = c and a = a
        and sp = "?sp" and r = "?r0"] net by blast
  have ps: "filter (isPostTo (BACKEND w)) es = []"
    using es by (rule no_fetch_no_post)
  show ?thesis
  proof (cases out)
    case Rejected
    then show ?thesis
      by (simp add: g t generateResponse_def fetches_def posts_def es ps placeholderUrl_def)
  next
    case (Response ok b)
    with out have "\<not> ok \<or> b = NotJson" by simp
    with Response show ?thesis
      by (auto simp: g t generateResponse_def fetches_def posts_def es ps placeholderUrl_def)
  qed
qed

theorem generateModel_failure_placeholder_witness:
  "prompt cubeForm = Str ''cube''
   \<and> spec_validate decimalNumber (sanitizeInput (trim ''cube'')) cubeForm = None
   \<and> error (st (snd (generateModel decimalNumber trim (answering Rejected) None initialState cubeForm)))
       = JStr ''Network error. Using placeholder preview.''
   \<and> modelUrl (st (snd (generateModel decimalNumber trim (answering Rejected) None initialState cubeForm)))
       = JStr ''https://modelviewer.dev/shared-assets/models/Astronaut.glb''
   \<and> isLoading (st (snd (generateModel decimalNumber trim (answering Rejected) None initialState cubeForm))) = False
   \<and> length (posts ''/.netlify/functions/generate''
        (snd (generateModel decimalNumber trim (answering Rejected) None initialState cubeForm))) = 1
   \<and> error (st (snd (generateModel decimalNumber trim (answering (Response False NotJson)) None initialState cubeForm)))
       = JStr ''Failed to generate model. Using placeholder preview.''
   \<and> modelUrl (st (snd (generateModel decimalNumber trim (answering (Response False NotJson)) None initialState cubeForm)))
       = JStr ''https://modelviewer.dev/shared-assets/models/Astronaut.glb''"
proof -
  have r: "case Rejected of Rejected \<Rightarrow> True | Response ok b \<Rightarrow> \<not> ok \<or> b = NotJson"
    by simp
  have f: "case Response False NotJson of Rejected \<Rightarrow> True | Response ok b \<Rightarrow> \<not> ok \<or> b = NotJson"
    by simp
  from generateModel_failure_placeholder [where a = cubeForm and p = "''cube''" and N = decimalNumber and T = trim
      and net = "answering Rejected" and w = None and c = initialState and out = Rejected,
      OF cubeForm_prompt cubeForm_valid answering_post r]
    generateModel_failure_placeholder [where a = cubeForm and p = "''cube''" and N = decimalNumber and T = trim
      and net = "answering (Response False NotJson)" and w = None and c = initialState
      and out = "Response False NotJson",
      OF cubeForm_prompt cubeForm_valid answering_post f]
  show ?thesis
    by (simp add: cubeForm_prompt cubeForm_valid BACKEND_def)
qed

text \<open>
  Claim C5, as amended. When the inputs are valid, the backend answers with a success
  status, and the body has no \<^verbatim>\<open>modelUrl\<close> field and no truthy \<^verbatim>\<open>error\<close> field,
  \<open>generateModel\<close> assigns the missing-result message and the fixed placeholder address,
  and clears the loading flag.
\<close>

theorem generateModel_missing_url:
  assumes "prompt a = Str p"
    and "spec_validate N (sanitizeInput (T p)) a = None"
    and net: "\<And>n req. req_method req = POST \<Longrightarrow> url req = BACKEND w \<Longrightarrow> net n req = Response True (Json data)"
    and "truthyProp data ''error'' = None"
    and "getProp data ''modelUrl'' = None"
  shows "fst (generateModel N T net w c a) = Returned
       \<and> error (st (snd (generateModel N T net w c a))) =
           JStr ''No model URL returned. Showing placeholder.''
       \<and> modelUrl (st (snd (generateModel N T net w c a))) =
           JStr ''https://modelviewer.dev/shared-assets/models/Astronaut.glb''
       \<and> isLoading (st (snd (generateModel N T net w c a))) = False"
proof -
  let ?sp = "sanitizeInput (T p)"
  let ?r0 = "\<lparr>st = c\<lparr>error := JStr '''', isLoading := True, modelUrl := JNull\<rparr>,
              trace = [TrackEvent ''Generator'' ''GenerateAttempt'' (orImageBased ?sp)]\<rparr>"
  have g: "generateModel N T net w c a = (Returned, setIsLoading False (generateTry N net w c a ?sp ?r0))"
    using assms(1,2) by (rule generateModel_accepts)
  obtain tok es where
    t: "generateTry N net w c a ?sp ?r0 =
              generateResponse net c a ?sp (Response True (Json data))
                (?r0\<lparr>trace := trace ?r0 @ Fetch csrfRequest # es
                          @ [Fetch (generateRequest w (buildPayload N c a ?sp) tok)]\<rparr>)"
    using generateTry_unfold [where net = net and w = w and out = "Response True (Json data)" and N = N and c = c and a = a
        and sp = "?sp" and r = "?r0"] net by blast
  have m: "truthyProp data ''modelUrl'' = None"
    using assms(5) by (simp add: truthyProp_def)
  show ?thesis
    by (simp add: g t generateResponse_def assms(4) m placeholderUrl_def)
qed

theorem generateModel_missing_url_witness:
  "prompt cubeForm = Str ''cube''
   \<and> spec_validate decimalNumber (sanitizeInput (trim ''cube'')) cubeForm = None
   \<and> truthyProp emptyBody ''error'' = None
   \<and> getProp emptyBody ''modelUrl'' = None
   \<and> error (st (snd (generateModel decimalNumber trim (answering (Response True (Json emptyBody))) None
        initialState cubeForm))) = JStr ''No model URL returned. Showing placeholder.''
   \<and> modelUrl (st (snd (generateModel decimalNumber trim (answering (Response True (Json emptyBody))) None
        initialState cubeForm))) = JStr ''https://modelviewer.dev/shared-assets/models/Astronaut.glb''"
proof -
  have e: "truthyProp emptyBody ''error'' = None"
    by (simp add: truthyProp_def emptyBody_def)
  have m: "getProp emptyBody ''modelUrl'' = None"
    by (simp add: emptyBody_def)
  from generateModel_missing_url [where a = cubeForm and p = "''cube''" and N = decimalNumber and T = trim
      and net = "answering (Response True (Json emptyBody))" and w = None and c = initialState
      and data = emptyBody, OF cubeForm_prompt cubeForm_valid answering_post e m]
  show ?thesis
    by (simp add: cubeForm_prompt cubeForm_valid e m)
qed

text \<open>
  The claim as first stated includes the bodies that carry an error field, and fails on
  the success response whose body is \<^verbatim>\<open>{"error": "quota exceeded"}\<close>: the test of
  \<^verbatim>\<open>data?.error\<close> comes first, the result stays \<^verbatim>\<open>null\<close> and the message is the error of
  the body, not the missing-result message.
\<close>

theorem generateModel_missing_url_counterexample:
  "getProp errorBody ''modelUrl'' = None
   \<and> modelUrl (st (snd (generateModel decimalNumber trim (answering (Response True (Json errorBody))) None
        initialState cubeForm))) = JNull
   \<and> error (st (snd (generateModel decimalNumber trim (answering (Response True (Json errorBody))) None
        initialState cubeForm))) = JStr ''quota exceeded''"
proof -
  have e: "truthyProp errorBody ''error'' = Some (JStr ''quota exceeded'')"
    by (simp add: truthyProp_def errorBody_def)
  have s: "renderable (JStr ''quota exceeded'')"
    by simp
  from generateModel_error_field [where a = cubeForm and p = "''cube''" and N = decimalNumber and T = trim
      and net = "answering (Response True (Json errorBody))" and w = None and c = initialState
      and data = errorBody and e = "JStr ''quota exceeded''",
      OF cubeForm_prompt cubeForm_valid answering_post e s]
  show ?thesis
    by (simp add: errorBody_def)
qed

section \<open>The payment gate\<close>

text \<open>
  Claim C6, as amended. For every plan tier, price identifier, snapshot of the session
  and starting state, one call of \<open>payForModel\<close> decides exactly one of four outcomes, by
  checks in this order: no action when the identifier is absent; blocked with the
  generate-a-model-first message when the identifier is a one-time purchase and no
  result exists; blocked with the sign-in message when no identity is present, whether
  or not a result exists; otherwise the checkout request is sent. The decision is a
  function of the identifier and the snapshot alone.
\<close>

theorem payForModel_decides:
  "observedGate (payForModel net (c\<lparr>userPlan := tier\<rparr>) pid \<lparr>st = s, trace = []\<rparr>) = Some (gate c pid)"
proof (cases pid)
  case None
  then show ?thesis
    by (simp add: payForModel_def gate_def observedGate_def posts_def Let_def)
next
  case (Some p)
  show ?thesis
  proof (cases "p = []")
    case True
    with Some show ?thesis
      by (simp add: payForModel_def gate_def observedGate_def posts_def Let_def)
  next
    case False
    note nonempty = this
    show ?thesis
    proof (cases "oneTimePurchase p \<and> \<not> jtruthy (modelUrl c)")
      case True
      with Some nonempty show ?thesis
        by (simp add: payForModel_def gate_def observedGate_def posts_def Let_def oneTimePurchase_def)
    next
      case False
      note passes = this
      show ?thesis
      proof (cases "user c")
        case None
        with Some nonempty passes show ?thesis
          by (auto simp: payForModel_def gate_def observedGate_def posts_def Let_def oneTimePurchase_def)
      next
        case (Some usr)
        with \<open>pid = Some p\<close> nonempty passes show ?thesis
          by (auto simp: payForModel_def gate_def observedGate_def checkout_posts Let_def oneTimePurchase_def)
      qed
    qed
  qed
qed

theorem payForModel_decides_witness:
  "observedGate (payForModel (answering Rejected) (signedInWithModel\<lparr>userPlan := JStr ''basic''\<rparr>)
      (Some ''price_1N9Z8z1234567890'') \<lparr>st = initialState, trace = []\<rparr>) = Some ProceedToCheckout
   \<and> observedGate (payForModel (answering Rejected) (initialState\<lparr>userPlan := JStr ''free''\<rparr>)
      None \<lparr>st = initialState, trace = []\<rparr>) = Some NoActionNeeded
   \<and> observedGate (payForModel (answering Rejected) (initialState\<lparr>userPlan := JStr ''free''\<rparr>)
      (Some ''price_onetime'') \<lparr>st = initialState, trace = []\<rparr>) = Some BlockedNeedsModel
   \<and> observedGate (payForModel (answering Rejected)
      (initialState\<lparr>modelUrl := JStr ''https://x/y.glb'', userPlan := JStr ''free''\<rparr>)
      (Some ''price_onetime'') \<lparr>st = initialState, trace = []\<rparr>) = Some BlockedNeedsSignIn"
  using payForModel_decides [where net = "answering Rejected" and c = signedInWithModel
      and tier = "JStr ''basic''" and pid = "Some ''price_1N9Z8z1234567890''" and s = initialState]
    payForModel_decides [where net = "answering Rejected" and c = initialState
      and tier = "JStr ''free''" and pid = None and s = initialState]
    payForModel_decides [where net = "answering Rejected" and c = initialState
      and tier = "JStr ''free''" and pid = "Some ''price_onetime''" and s = initialState]
    payForModel_decides [where net = "answering Rejected"
      and c = "initialState\<lparr>modelUrl := JStr ''https://x/y.glb''\<rparr>"
      and tier = "JStr ''free''" and pid = "Some ''price_onetime''" and s = initialState]
  by (simp add: gate_def oneTimePurchase_def signedInWithModel_def signedIn_def initialState_def)

text \<open>
  The table as first stated asks for sign-in only when a result exists. With an
  identifier that is not a one-time purchase, no result and no identity, that table
  proceeds to the checkout, and the source blocks with the sign-in message.
\<close>

theorem payForModel_decides_counterexample:
  "spec_gate initialState (Some ''price_sub_monthly'') = ProceedToCheckout
   \<and> observedGate (payForModel (answering Rejected) initialState (Some ''price_sub_monthly'')
        \<lparr>st = initialState, trace = []\<rparr>) = Some BlockedNeedsSignIn"
  by (simp add: spec_gate_def oneTimePurchase_def initialState_def payForModel_def observedGate_def
      posts_def setError_def setShowSignIn_def emit_def Let_def)

text \<open>
  Claim C10. For every price identifier that starts with \<^verbatim>\<open>price_\<close> and does not
  contain \<^verbatim>\<open>sub\<close>, \<open>payForModel\<close> blocks with the generate-a-model-first message when no
  model address is present, whoever is signed in: the check comes before the sign-in
  check. Both subscription identifiers of \<open>PLANS\<close> are of that form.
\<close>

theorem payForModel_needs_model_first:
  "(startsWith p ''price_'' \<and> \<not> includesStr p ''sub'' \<and> \<not> jtruthy (modelUrl c) \<longrightarrow>
      payForModel net c (Some p) \<lparr>st = s, trace = []\<rparr> =
        \<lparr>st = s\<lparr>error := JStr ''Generate a model first before purchasing.''\<rparr>,
         trace = [ToastError (JStr ''Generate a model first.'')]\<rparr>)
   \<and> (\<forall>pl \<in> set PLANS. \<forall>q. priceId pl = Some q \<longrightarrow>
         startsWith q ''price_'' \<and> \<not> includesStr q ''sub'')"
proof
  show "startsWith p ''price_'' \<and> \<not> includesStr p ''sub'' \<and> \<not> jtruthy (modelUrl c) \<longrightarrow>
      payForModel net c (Some p) \<lparr>st = s, trace = []\<rparr> =
        \<lparr>st = s\<lparr>error := JStr ''Generate a model first before purchasing.''\<rparr>,
         trace = [ToastError (JStr ''Generate a model first.'')]\<rparr>"
  proof
    assume h: "startsWith p ''price_'' \<and> \<not> includesStr p ''sub'' \<and> \<not> jtruthy (modelUrl c)"
    then have "p \<noteq> []" by auto
    with h show "payForModel net c (Some p) \<lparr>st = s, trace = []\<rparr> =
        \<lparr>st = s\<lparr>error := JStr ''Generate a model first before purchasing.''\<rparr>,
         trace = [ToastError (JStr ''Generate a model first.'')]\<rparr>"
      by (simp add: payForModel_def Let_def setError_def emit_def)
  qed
next
  show "\<forall>pl \<in> set PLANS. \<forall>q. priceId pl = Some q \<longrightarrow>
         startsWith q ''price_'' \<and> \<not> includesStr q ''sub''"
    by (simp add: PLANS_def)
qed

theorem payForModel_needs_model_first_witness:
  "startsWith ''price_1N9Z8x1234567890'' ''price_''
   \<and> \<not> includesStr ''price_1N9Z8x1234567890'' ''sub''
   \<and> \<not> jtruthy (modelUrl signedIn)
   \<and> user signedIn = Some \<lparr>email = ''ada@example.com'', uid = ''u1''\<rparr>
   \<and> payForModel (answering Rejected) signedIn (Some ''price_1N9Z8x1234567890'')
        \<lparr>st = signedIn, trace = []\<rparr> =
        \<lparr>st = signedIn\<lparr>error := JStr ''Generate a model first before purchasing.''\<rparr>,
         trace = [ToastError (JStr ''Generate a model first.'')]\<rparr>
   \<and> priceId (PLANS ! 1) = Some ''price_1N9Z8x1234567890''
   \<and> priceId (PLANS ! 2) = Some ''price_1N9Z8y1234567890''
   \<and> \<not> includesStr ''price_1N9Z8y1234567890'' ''sub''"
proof -
  have h: "startsWith ''price_1N9Z8x1234567890'' ''price_''
     \<and> \<not> includesStr ''price_1N9Z8x1234567890'' ''sub''
     \<and> \<not> jtruthy (modelUrl signedIn)"
    by (simp add: signedIn_def initialState_def)
  have p: "PLANS ! 2 \<in> set PLANS \<and> priceId (PLANS ! 2) = Some ''price_1N9Z8y1234567890''
     \<and> priceId (PLANS ! 1) = Some ''price_1N9Z8x1234567890''"
    by (simp add: PLANS_def)
  from payForModel_needs_model_first [where p = "''price_1N9Z8x1234567890''" and c = signedIn
      and net = "answering Rejected" and s = signedIn]
    h p
  show ?thesis
    by (simp add: signedIn_def initialState_def)
qed

section \<open>The plan of the session\<close>

text \<open>
  Claim C7. The plan lookup defaults to \<^verbatim>\<open>free\<close>: when the exchange of the lookup
  throws, \<open>fetchUserPlan\<close> returns \<^verbatim>\<open>free\<close>; the plan assigned after sign-in is
  \<^verbatim>\<open>free\<close> whenever the looked-up plan is absent, and so whenever the lookup throws;
  on sign-out the plan is reset to \<^verbatim>\<open>free\<close> and the identity is cleared. The status
  of the lookup response is not looked at.
\<close>

theorem plan_defaults_to_free:
  "((\<forall>n tok. net n (planRequest u tok) = out) \<and> lookupThrows out \<longrightarrow>
       fst (fetchUserPlan net u r) = Some (JStr ''free''))
   \<and> (planAbsent (fst (fetchUserPlan net (uid usr) r)) \<longrightarrow>
         userPlan (st (onAuthStateChanged net (Some usr) r)) = JStr ''free'')
   \<and> ((\<forall>n tok. net n (planRequest (uid usr) tok) = out) \<and> lookupThrows out \<longrightarrow>
         userPlan (st (onAuthStateChanged net (Some usr) r)) = JStr ''free'')
   \<and> userPlan (st (onAuthStateChanged net None r)) = JStr ''free''
   \<and> user (st (onAuthStateChanged net None r)) = None"
proof (intro conjI impI)
  assume "(\<forall>n tok. net n (planRequest u tok) = out) \<and> lookupThrows out"
  then show "fst (fetchUserPlan net u r) = Some (JStr ''free'')"
    by (simp add: fetchUserPlan_throws)
next
  assume "planAbsent (fst (fetchUserPlan net (uid usr) r))"
  then show "userPlan (st (onAuthStateChanged net (Some usr) r)) = JStr ''free''"
    by (simp add: onAuthStateChanged_plan planAbsent_def planOrFree_def split: option.splits)
next
  assume "(\<forall>n tok. net n (planRequest (uid usr) tok) = out) \<and> lookupThrows out"
  then have "fst (fetchUserPlan net (uid usr) r) = Some (JStr ''free'')"
    by (simp add: fetchUserPlan_throws)
  then show "userPlan (st (onAuthStateChanged net (Some usr) r)) = JStr ''free''"
    by (simp add: onAuthStateChanged_plan planOrFree_def)
next
  show "userPlan (st (onAuthStateChanged net None r)) = JStr ''free''"
    by (simp add: onAuthStateChanged_def)
next
  show "user (st (onAuthStateChanged net None r)) = None"
    by (simp add: onAuthStateChanged_def)
qed

theorem plan_defaults_to_free_witness:
  "(\<forall>n tok. replying Rejected n (planRequest ''u1'' tok) = Rejected)
   \<and> lookupThrows Rejected
   \<and> fst (fetchUserPlan (replying Rejected) ''u1'' \<lparr>st = initialState, trace = []\<rparr>) = Some (JStr ''free'')
   \<and> userPlan (st (onAuthStateChanged (replying Rejected)
        (Some \<lparr>email = ''ada@example.com'', uid = ''u1''\<rparr>) \<lparr>st = initialState, trace = []\<rparr>)) = JStr ''free''
   \<and> planAbsent (fst (fetchUserPlan (replying (Response True (Json emptyBody))) ''u1''
        \<lparr>st = initialState, trace = []\<rparr>))
   \<and> userPlan (st (onAuthStateChanged (replying (Response True (Json emptyBody)))
        (Some \<lparr>email = ''ada@example.com'', uid = ''u1''\<rparr>) \<lparr>st = initialState, trace = []\<rparr>)) = JStr ''free''
   \<and> userPlan (st (onAuthStateChanged (replying Rejected) None \<lparr>st = signedIn, trace = []\<rparr>)) = JStr ''free''"
proof -
  have a: "planAbsent (fst (fetchUserPlan (replying (Response True (Json emptyBody))) ''u1''
        \<lparr>st = initialState, trace = []\<rparr>))"
    by (simp add: planAbsent_def fetchUserPlan_def getCsrfToken_def fetch_def replying_def emptyBody_def)
  from plan_defaults_to_free [where net = "replying Rejected" and u = "''u1''" and out = Rejected
      and r = "\<lparr>st = initialState, trace = []\<rparr>"
      and usr = "\<lparr>email = ''ada@example.com'', uid = ''u1''\<rparr>"]
    plan_defaults_to_free [where net = "replying (Response True (Json emptyBody))" and u = "''u1''"
      and out = Rejected and r = "\<lparr>st = initialState, trace = []\<rparr>"
      and usr = "\<lparr>email = ''ada@example.com'', uid = ''u1''\<rparr>"]
    plan_defaults_to_free [where net = "replying Rejected" and u = "''u1''" and out = Rejected
      and r = "\<lparr>st = signedIn, trace = []\<rparr>"
      and usr = "\<lparr>email = ''ada@example.com'', uid = ''u1''\<rparr>"]
    a
  show ?thesis
    by (simp add: replying_def)
qed

section \<open>The download button\<close>

text \<open>
  Claim C8 does not hold of the source. The download button calls \<open>generateModel\<close> with
  \<^verbatim>\<open>{ download: true }\<close> only; \<^verbatim>\<open>prompt\<close> is then \<^verbatim>\<open>undefined\<close>, and
  \<^verbatim>\<open>prompt.trim()\<close>, which is outside the \<^verbatim>\<open>try\<close>, throws a \<^verbatim>\<open>TypeError\<close> that
  nothing catches: the call ends with the exception, having only cleared the error
  message, for every network and every state.
\<close>

theorem generateModel_download_click_throws:
  "generateModel N T net w c downloadClick = (Threw TypeError, \<lparr>st = c\<lparr>error := JStr ''''\<rparr>, trace = []\<rparr>)"
  by (simp add: generateModel_def downloadClick_def noArgs_def setError_def Let_def)


theorem generateModel_download_click_throws_witness:
  "prompt downloadClick = Undefined
   \<and> generateModel decimalNumber trim (answering (Response True (Json modelBody))) None signedInWithModel downloadClick =
       (Threw TypeError, \<lparr>st = signedInWithModel\<lparr>error := JStr ''''\<rparr>, trace = []\<rparr>)"
  using generateModel_download_click_throws [where N = decimalNumber and T = trim
      and net = "answering (Response True (Json modelBody))" and w = None and c = signedInWithModel]
  by (simp add: downloadClick_def noArgs_def)

end
